theory Spec2Isabelle
  imports Main
begin

section \<open>Python values used by the three scripts\<close>

subsection \<open>Strings\<close>

text \<open>
  A Python \<open>str\<close> is a sequence of Unicode code points; a code point is a natural
  number. \<open>u\<close> turns an ASCII literal into such a sequence.
\<close>

type_synonym ustring = "nat list"

definition u :: "string \<Rightarrow> ustring" where
  "u s = map of_char s"

text \<open>
  \<open>str.isspace\<close> for one code point: the ASCII table of CPython
  (\<open>\t \n \v \f \r\<close>, \<open>0x1c..0x1f\<close>, space) and the Unicode white space
  beyond it.
\<close>

definition isspace :: "nat \<Rightarrow> bool" where
  "isspace c \<longleftrightarrow>
     (9 \<le> c \<and> c \<le> 13) \<or> (28 \<le> c \<and> c \<le> 32) \<or> c = 133 \<or> c = 160 \<or>
     c = 5760 \<or> (8192 \<le> c \<and> c \<le> 8202) \<or> c = 8232 \<or> c = 8233 \<or>
     c = 8239 \<or> c = 8287 \<or> c = 12288"

text \<open>\<open>s.strip()\<close>: white space removed at both ends.\<close>

definition strip :: "ustring \<Rightarrow> ustring" where
  "strip s = rev (dropWhile isspace (rev (dropWhile isspace s)))"

text \<open>Truth value of a \<open>str\<close> and of a \<open>str\<close>-or-\<open>None\<close>.\<close>

definition truthy :: "ustring \<Rightarrow> bool" where
  "truthy s \<longleftrightarrow> s \<noteq> []"

definition truthy_opt :: "ustring option \<Rightarrow> bool" where
  "truthy_opt v = (case v of None \<Rightarrow> False | Some s \<Rightarrow> truthy s)"

text \<open>\<open>f"{v}"\<close> for a \<open>str\<close>-or-\<open>None\<close>.\<close>

definition fmt_opt :: "ustring option \<Rightarrow> ustring" where
  "fmt_opt v = (case v of None \<Rightarrow> u ''None'' | Some s \<Rightarrow> s)"

text \<open>\<open>str(n)\<close> for a length: decimal digits, most significant first.\<close>

fun str_nat :: "nat \<Rightarrow> ustring" where
  "str_nat n = (if n < 10 then [48 + n] else str_nat (n div 10) @ [48 + n mod 10])"

declare str_nat.simps [simp del]

text \<open>
  \<open>f"{n:,}"\<close>: the digits in groups of three from the right, separated by commas.
  \<open>group3\<close> works on the reversed digits.
\<close>

fun group3 :: "ustring \<Rightarrow> ustring" where
  "group3 (a # b # c # d # rest) = a # b # c # 44 # group3 (d # rest)"
| "group3 ds = ds"

definition fmt_thousands :: "nat \<Rightarrow> ustring" where
  "fmt_thousands n = rev (group3 (rev (str_nat n)))"

subsection \<open>The environment\<close>

type_synonym env = "ustring \<rightharpoonup> ustring"

text \<open>
  \<open>load_dotenv()\<close> adds the variables of the \<open>.env\<close> file to the process
  environment without overriding one that is already set. \<open>dotenv\<close> is the parsed
  file (empty when there is none).
\<close>

definition load_dotenv :: "env \<Rightarrow> env \<Rightarrow> env" where
  "load_dotenv dotenv environ = dotenv ++ environ"

definition getenv :: "env \<Rightarrow> string \<Rightarrow> ustring option" where
  "getenv e k = e (u k)"

definition getenv_default :: "env \<Rightarrow> string \<Rightarrow> ustring \<Rightarrow> ustring" where
  "getenv_default e k d = (case e (u k) of None \<Rightarrow> d | Some v \<Rightarrow> v)"

subsection \<open>Exceptions\<close>

text \<open>
  The exceptions the scripts raise or catch by name, each with its message, and
  \<open>LibraryError\<close> for any other \<open>Exception\<close> raised inside a client library.
\<close>

datatype exn =
    RuntimeError ustring
  | FileNotFoundError ustring
  | ValueError ustring
  | EOFError
  | KeyboardInterrupt
  | LibraryError ustring

text \<open>\<open>KeyboardInterrupt\<close> derives from \<open>BaseException\<close>, the others from \<open>Exception\<close>.\<close>

fun is_Exception :: "exn \<Rightarrow> bool" where
  "is_Exception KeyboardInterrupt = False"
| "is_Exception _ = True"

fun str_exn :: "exn \<Rightarrow> ustring" where
  "str_exn (RuntimeError m) = m"
| "str_exn (FileNotFoundError m) = m"
| "str_exn (ValueError m) = m"
| "str_exn EOFError = []"
| "str_exn KeyboardInterrupt = []"
| "str_exn (LibraryError m) = m"

section \<open>The world outside the scripts\<close>

subsection \<open>Documents, index records, collections\<close>

record document =
  doc_text :: ustring
  metadata :: "(ustring \<times> ustring) list"

text \<open>
  An index record as the vector store returns it: the chunk's text and metadata. Its
  opaque identifier and its floating-point vector are left out.
\<close>

record index_record =
  rec_text :: ustring
  rec_meta :: "(ustring \<times> ustring) list"

record collection =
  cname :: ustring
  dimension :: nat
  metric :: ustring
  cloud :: ustring
  region :: ustring
  recs :: "index_record list"

subsection \<open>Observable events\<close>

text \<open>
  What a run does to the outside: lines printed, prompts, files read, and the requests
  sent to the vector store and to the embedding/completion provider.
\<close>

datatype event =
    Stdout ustring
  | Prompt ustring
  | ReadFiles "ustring list"
  | ReadDir ustring "ustring list"
  | ListIndexes
  | CreateIndex "ustring option" nat ustring ustring ustring
  | DescribeIndex "ustring option"
  | Embed ustring
  | Upsert ustring ustring
  | Search ustring nat ustring
  | Complete ustring "ustring list"

text \<open>The requests that leave the machine for an external service.\<close>

fun external :: "event \<Rightarrow> bool" where
  "external (Stdout _) = False"
| "external (Prompt _) = False"
| "external (ReadFiles _) = False"
| "external (ReadDir _ _) = False"
| "external _ = True"

subsection \<open>Library handles and global settings\<close>

record model_handle =
  model :: ustring
  api_key :: "ustring option"

record settings =
  embed_model :: "model_handle option"
  llm :: "model_handle option"
  chunk_size :: int
  chunk_overlap :: int

record query_engine =
  engine_index :: ustring
  similarity_top_k :: nat

text \<open>
  The state a run threads through: the collections held by the vector store, the
  \<open>Settings\<close> singleton of the orchestration library, and the events so far.
\<close>

record sys =
  collections :: "collection list"
  settings :: settings
  trace :: "event list"

subsection \<open>Behaviour of the libraries that the repository does not fix\<close>

text \<open>
  Each field is one library function whose result the scripts only pass on:
  \<open>int\<close> on a string (which may raise), file-system tests, the client
  constructors (which may refuse a credential), the document readers, the text
  splitter, the embedding request (which may fail), the similarity order of the
  records for a question, and the completion request.
\<close>

record lib =
  int_of :: "ustring \<Rightarrow> exn + int"
  path_exists :: "ustring \<Rightarrow> bool"
  path_name :: "ustring \<Rightarrow> ustring"
  pinecone_refuses :: "ustring option \<Rightarrow> exn option"
  embedding_refuses :: "ustring \<Rightarrow> ustring option \<Rightarrow> exn option"
  llm_refuses :: "ustring \<Rightarrow> ustring option \<Rightarrow> exn option"
  read_files :: "ustring list \<Rightarrow> exn + document list"
  read_dir :: "ustring \<Rightarrow> ustring list \<Rightarrow> exn + document list"
  split_text :: "int \<Rightarrow> int \<Rightarrow> document \<Rightarrow> ustring list"
  embed_fails :: "ustring \<Rightarrow> exn option"
  by_similarity :: "ustring \<Rightarrow> index_record list \<Rightarrow> index_record list"
  completion :: "ustring \<Rightarrow> index_record list \<Rightarrow> exn + ustring option"

section \<open>Programs: state, events and exceptions\<close>

type_synonym 'a prog = "sys \<Rightarrow> (exn + 'a) \<times> sys"

definition ret :: "'a \<Rightarrow> 'a prog" where
  "ret x = (\<lambda>s. (Inr x, s))"

definition raise :: "exn \<Rightarrow> 'a prog" where
  "raise e = (\<lambda>s. (Inl e, s))"

definition bind :: "'a prog \<Rightarrow> ('a \<Rightarrow> 'b prog) \<Rightarrow> 'b prog" where
  "bind m f = (\<lambda>s. case m s of (Inl e, s') \<Rightarrow> (Inl e, s') | (Inr x, s') \<Rightarrow> f x s')"

definition emit :: "event \<Rightarrow> unit prog" where
  "emit ev = (\<lambda>s. (Inr (), s\<lparr>trace := trace s @ [ev]\<rparr>))"

definition print :: "ustring \<Rightarrow> unit prog" where
  "print line = emit (Stdout line)"

definition lift :: "exn + 'a \<Rightarrow> 'a prog" where
  "lift r = (\<lambda>s. (r, s))"

definition refuse :: "exn option \<Rightarrow> unit prog" where
  "refuse r = (case r of None \<Rightarrow> ret () | Some e \<Rightarrow> raise e)"

text \<open>\<open>try: m except (EOFError, KeyboardInterrupt): h\<close> and the like.\<close>

definition catch :: "'a prog \<Rightarrow> (exn \<Rightarrow> bool) \<Rightarrow> (exn \<Rightarrow> 'a prog) \<Rightarrow> 'a prog" where
  "catch m caught h =
     (\<lambda>s. case m s of
            (Inl e, s') \<Rightarrow> if caught e then h e s' else (Inl e, s')
          | (Inr x, s') \<Rightarrow> (Inr x, s'))"

section \<open>The client libraries\<close>

subsection \<open>Vector store client\<close>

text \<open>
  The vector store is an external managed service, not code of the repository.
  Section 6 of the spec gives its contract: an index is identified by name, holds
  records, and a query returns the \<open>k\<close> nearest records. The service's state is the
  list of its collections. The client constructor only keeps the key, unless the
  library refuses it.
\<close>

definition Pinecone :: "lib \<Rightarrow> ustring option \<Rightarrow> ustring option prog" where
  "Pinecone L key = bind (refuse (pinecone_refuses L key)) (\<lambda>_. ret key)"

definition index_names :: "sys \<Rightarrow> ustring list" where
  "index_names s = map cname (collections s)"

text \<open>Modelled from the spec: listing the store's indexes gives the names of its collections.\<close>

definition list_indexes_names :: "ustring list prog" where
  "list_indexes_names = bind (emit ListIndexes) (\<lambda>_ s. (Inr (index_names s), s))"

text \<open>
  Modelled from the spec: creating an index adds an empty collection with the
  requested name, dimension and metric; the service refuses a request without a name
  and a name that is taken.
\<close>

definition create_index ::
  "ustring option \<Rightarrow> nat \<Rightarrow> ustring \<Rightarrow> ustring \<Rightarrow> ustring \<Rightarrow> unit prog" where
  "create_index name dim met cl reg =
     bind (emit (CreateIndex name dim met cl reg)) (\<lambda>_.
       case name of
         None \<Rightarrow> raise (LibraryError (u ''index name missing''))
       | Some n \<Rightarrow>
           (\<lambda>s. if n \<in> set (index_names s)
                then (Inl (LibraryError (u ''index already exists'')), s)
                else (Inr (), s\<lparr>collections := collections s @
                        [\<lparr>cname = n, dimension = dim, metric = met, cloud = cl,
                          region = reg, recs = []\<rparr>]\<rparr>)))"

text \<open>
  Modelled from the spec: opening an index by name asks the service for it and fails
  when there is none of that name.
\<close>

definition Index :: "ustring option \<Rightarrow> ustring prog" where
  "Index name =
     bind (emit (DescribeIndex name)) (\<lambda>_.
       case name of
         None \<Rightarrow> raise (LibraryError (u ''index name missing''))
       | Some n \<Rightarrow>
           (\<lambda>s. if n \<in> set (index_names s) then (Inr n, s)
                else (Inl (LibraryError (u ''index not found'')), s)))"

text \<open>Modelled from the spec: an upsert appends the record to the named collection.\<close>

definition upsert :: "ustring \<Rightarrow> index_record \<Rightarrow> unit prog" where
  "upsert idx r =
     bind (emit (Upsert idx (rec_text r))) (\<lambda>_ s.
       if idx \<in> set (index_names s)
       then (Inr (), s\<lparr>collections :=
               map (\<lambda>c. if cname c = idx then c\<lparr>recs := recs c @ [r]\<rparr> else c)
                 (collections s)\<rparr>)
       else (Inl (LibraryError (u ''index not found'')), s))"

text \<open>
  Modelled from the spec: the nearest-neighbour query of the vector store (section 6,
  "queries return the \<open>k\<close> nearest records by cosine similarity"). The similarity order
  is the library's; the store returns its first \<open>k\<close> records.
\<close>

definition search :: "lib \<Rightarrow> ustring \<Rightarrow> nat \<Rightarrow> ustring \<Rightarrow> index_record list prog" where
  "search L idx k q =
     bind (emit (Search idx k q)) (\<lambda>_ s.
       case find (\<lambda>c. cname c = idx) (collections s) of
         None \<Rightarrow> (Inl (LibraryError (u ''index not found'')), s)
       | Some c \<Rightarrow> (Inr (take k (by_similarity L q (recs c))), s))"

subsection \<open>Embedding and completion provider\<close>

definition OpenAIEmbedding :: "lib \<Rightarrow> ustring \<Rightarrow> ustring option \<Rightarrow> model_handle prog" where
  "OpenAIEmbedding L m k =
     bind (refuse (embedding_refuses L m k)) (\<lambda>_. ret \<lparr>model = m, api_key = k\<rparr>)"

definition OpenAI :: "lib \<Rightarrow> ustring \<Rightarrow> ustring option \<Rightarrow> model_handle prog" where
  "OpenAI L m k =
     bind (refuse (llm_refuses L m k)) (\<lambda>_. ret \<lparr>model = m, api_key = k\<rparr>)"

definition embed :: "lib \<Rightarrow> ustring \<Rightarrow> unit prog" where
  "embed L t = bind (emit (Embed t)) (\<lambda>_. refuse (embed_fails L t))"

definition complete :: "lib \<Rightarrow> ustring \<Rightarrow> index_record list \<Rightarrow> ustring option prog" where
  "complete L q ctx =
     bind (emit (Complete q (map rec_text ctx))) (\<lambda>_. lift (completion L q ctx))"

subsection \<open>Orchestration library\<close>

definition set_embed_model :: "model_handle \<Rightarrow> unit prog" where
  "set_embed_model h = (\<lambda>s. (Inr (), s\<lparr>settings := (settings s)\<lparr>embed_model := Some h\<rparr>\<rparr>))"

definition set_llm :: "model_handle \<Rightarrow> unit prog" where
  "set_llm h = (\<lambda>s. (Inr (), s\<lparr>settings := (settings s)\<lparr>llm := Some h\<rparr>\<rparr>))"

definition set_chunk_size :: "int \<Rightarrow> unit prog" where
  "set_chunk_size n = (\<lambda>s. (Inr (), s\<lparr>settings := (settings s)\<lparr>chunk_size := n\<rparr>\<rparr>))"

definition set_chunk_overlap :: "int \<Rightarrow> unit prog" where
  "set_chunk_overlap n = (\<lambda>s. (Inr (), s\<lparr>settings := (settings s)\<lparr>chunk_overlap := n\<rparr>\<rparr>))"

text \<open>
  Modelled from the spec: \<open>query_engine.query\<close> is library code; section 4.2 gives its
  steps: embed the question, retrieve the \<open>topK\<close> nearest records, ask the provider
  for a completion over question and records.
\<close>

record response =
  response :: "ustring option"
  source_nodes :: "index_record list"

definition engine_query :: "lib \<Rightarrow> query_engine \<Rightarrow> ustring \<Rightarrow> response prog" where
  "engine_query L qe q =
     bind (embed L q) (\<lambda>_.
     bind (search L (engine_index qe) (similarity_top_k qe) q) (\<lambda>ctx.
     bind (complete L q ctx) (\<lambda>a.
     ret \<lparr>response = a, source_nodes = ctx\<rparr>)))"

text \<open>\<open>str(response)\<close> is \<open>response.response or "None"\<close>.\<close>

definition str_response :: "response \<Rightarrow> ustring" where
  "str_response r =
     (case response r of None \<Rightarrow> u ''None'' | Some t \<Rightarrow> if truthy t then t else u ''None'')"

text \<open>
  Modelled from the spec: \<open>VectorStoreIndex.from_documents\<close> is library code; section
  4.2 gives its steps: split each document into chunks under the configured size and
  overlap, request an embedding for each chunk, upsert each as an index record.
\<close>

fun upsert_chunks ::
  "lib \<Rightarrow> ustring \<Rightarrow> (ustring \<times> ustring) list \<Rightarrow> ustring list \<Rightarrow> unit prog" where
  "upsert_chunks L idx meta [] = ret ()"
| "upsert_chunks L idx meta (c # cs) =
     bind (embed L c) (\<lambda>_.
     bind (upsert idx \<lparr>rec_text = c, rec_meta = meta\<rparr>) (\<lambda>_.
     upsert_chunks L idx meta cs))"

definition chunks_of :: "lib \<Rightarrow> sys \<Rightarrow> document \<Rightarrow> ustring list" where
  "chunks_of L s d = split_text L (chunk_size (settings s)) (chunk_overlap (settings s)) d"

fun from_documents :: "lib \<Rightarrow> ustring \<Rightarrow> document list \<Rightarrow> ustring prog" where
  "from_documents L idx [] = ret idx"
| "from_documents L idx (d # ds) =
     (\<lambda>s. bind (upsert_chunks L idx (metadata d) (chunks_of L s d)) (\<lambda>_.
             from_documents L idx ds) s)"

definition load_data_files :: "lib \<Rightarrow> ustring list \<Rightarrow> document list prog" where
  "load_data_files L paths = bind (emit (ReadFiles paths)) (\<lambda>_. lift (read_files L paths))"

definition load_data_dir :: "lib \<Rightarrow> ustring \<Rightarrow> ustring list \<Rightarrow> document list prog" where
  "load_data_dir L dir exts = bind (emit (ReadDir dir exts)) (\<lambda>_. lift (read_dir L dir exts))"

section \<open>app.py\<close>

subsection \<open>Module initialisation\<close>

text \<open>\<open>int(os.getenv(name, default))\<close>: the default is already an \<open>int\<close>.\<close>

definition int_getenv :: "lib \<Rightarrow> env \<Rightarrow> string \<Rightarrow> int \<Rightarrow> exn + int" where
  "int_getenv L e k d =
     (case getenv e k of
        None \<Rightarrow> Inr d
      | Some v \<Rightarrow> int_of L v)"

text \<open>
  The module's globals that the handlers use. The vector store object and the storage
  context only wrap the index handle.
\<close>

record app_globals =
  PINECONE_INDEX_NAME :: ustring
  storage_context :: ustring
  query_engine :: query_engine

definition app_module :: "lib \<Rightarrow> env \<Rightarrow> env \<Rightarrow> app_globals prog" where
  "app_module L dotenv environ =
     (let e = load_dotenv dotenv environ;
          OPENAI_API_KEY = getenv e ''OPENAI_API_KEY'';
          PINECONE_API_KEY = getenv e ''PINECONE_API_KEY'';
          INDEX_NAME = getenv_default e ''PINECONE_INDEX_NAME'' (u ''de-knowledge-base'');
          EMBEDDING_MODEL = getenv_default e ''EMBEDDING_MODEL'' (u ''text-embedding-3-small'');
          CHAT_MODEL = getenv_default e ''CHAT_MODEL'' (u ''gpt-4o-mini'')
      in
      bind (lift (int_getenv L e ''CHUNK_SIZE'' 1000)) (\<lambda>CHUNK_SIZE.
      bind (lift (int_getenv L e ''CHUNK_OVERLAP'' 200)) (\<lambda>CHUNK_OVERLAP.
      bind (if \<not> truthy_opt OPENAI_API_KEY
            then raise (RuntimeError (u ''OPENAI_API_KEY not set'')) else ret ()) (\<lambda>_.
      bind (if \<not> truthy_opt PINECONE_API_KEY
            then raise (RuntimeError (u ''PINECONE_API_KEY not set'')) else ret ()) (\<lambda>_.
      bind (OpenAIEmbedding L EMBEDDING_MODEL OPENAI_API_KEY) (\<lambda>em.
      bind (set_embed_model em) (\<lambda>_.
      bind (OpenAI L CHAT_MODEL OPENAI_API_KEY) (\<lambda>lm.
      bind (set_llm lm) (\<lambda>_.
      bind (set_chunk_size CHUNK_SIZE) (\<lambda>_.
      bind (set_chunk_overlap CHUNK_OVERLAP) (\<lambda>_.
      bind (Pinecone L PINECONE_API_KEY) (\<lambda>pc.
      bind (Index (Some INDEX_NAME)) (\<lambda>pinecone_index.
      ret \<lparr>PINECONE_INDEX_NAME = INDEX_NAME,
           storage_context = pinecone_index,
           query_engine = \<lparr>engine_index = pinecone_index, similarity_top_k = 5\<rparr>\<rparr>)))))))))))))"

subsection \<open>chat\<close>

definition warning_sign :: ustring where
  "warning_sign = [0x26A0, 0xFE0F]"

definition check_mark :: ustring where
  "check_mark = [0x2705]"

definition msg_please_type :: ustring where
  "msg_please_type = warning_sign @ u '' Please type a question.''"

definition chat :: "lib \<Rightarrow> app_globals \<Rightarrow> ustring \<Rightarrow> ustring list list \<Rightarrow> ustring prog" where
  "chat L G message history =
     (if \<not> truthy message then ret msg_please_type
      else bind (engine_query L (query_engine G) message) (\<lambda>response.
           ret (str_response response)))"

subsection \<open>ingest\_files\<close>

text \<open>
  What the upload handler may receive: \<open>None\<close>, one \<open>str\<close>, one \<open>Path\<close> (given
  by its string form) or a list of paths.
\<close>

datatype files_arg =
    NoFiles
  | OneStr ustring
  | OnePath ustring
  | FileList "ustring list"

text \<open>\<open>not files\<close>: a \<open>Path\<close> object is always true.\<close>

fun truthy_files :: "files_arg \<Rightarrow> bool" where
  "truthy_files NoFiles = False"
| "truthy_files (OneStr p) = truthy p"
| "truthy_files (OnePath p) = True"
| "truthy_files (FileList fs) = (fs \<noteq> [])"

text \<open>
  Lines 82 to 85; the \<open>None\<close> case never gets there (\<open>not files\<close> has returned
  before).
\<close>

fun file_paths_of :: "lib \<Rightarrow> files_arg \<Rightarrow> ustring list" where
  "file_paths_of L (OneStr p) = [p]"
| "file_paths_of L (OnePath p) = [p]"
| "file_paths_of L (FileList fs) = filter (path_exists L) fs"
| "file_paths_of L NoFiles = []"

definition msg_no_file :: ustring where
  "msg_no_file = warning_sign @ u '' No file uploaded.''"

definition msg_no_valid :: ustring where
  "msg_no_valid = warning_sign @ u '' Could not find any valid files to ingest.''"

definition msg_ingested :: "nat \<Rightarrow> ustring" where
  "msg_ingested n =
     check_mark @ u '' Ingested '' @ str_nat n @ u '' document(s) into the knowledge base.''"

definition ingest_files :: "lib \<Rightarrow> app_globals \<Rightarrow> files_arg \<Rightarrow> ustring prog" where
  "ingest_files L G files =
     (if \<not> truthy_files files then ret msg_no_file
      else
        let file_paths = file_paths_of L files in
        if file_paths = [] then ret msg_no_valid
        else
          bind (load_data_files L file_paths) (\<lambda>documents.
          bind (from_documents L (storage_context G) documents) (\<lambda>_.
          ret (msg_ingested (length documents)))))"

section \<open>query\_knowledge\_base.py\<close>

definition query_setup :: "lib \<Rightarrow> env \<Rightarrow> env \<Rightarrow> query_engine prog" where
  "query_setup L dotenv environ =
     (let e = load_dotenv dotenv environ in
      bind (Pinecone L (getenv e ''PINECONE_API_KEY'')) (\<lambda>pc.
      let index_name = getenv_default e ''PINECONE_INDEX_NAME'' (u ''de-knowledge-base'') in
      bind (Index (Some index_name)) (\<lambda>pinecone_index.
      bind (OpenAIEmbedding L
              (getenv_default e ''EMBEDDING_MODEL'' (u ''text-embedding-3-small''))
              (getenv e ''OPENAI_API_KEY'')) (\<lambda>em.
      bind (set_embed_model em) (\<lambda>_.
      bind (OpenAI L (getenv_default e ''CHAT_MODEL'' (u ''gpt-4o-mini''))
              (getenv e ''OPENAI_API_KEY'')) (\<lambda>lm.
      bind (set_llm lm) (\<lambda>_.
      ret \<lparr>engine_index = pinecone_index, similarity_top_k = 5\<rparr>)))))))"

text \<open>
  Standard input: the lines typed, in order; \<open>CtrlC\<close> is a keyboard interrupt while
  \<open>input\<close> waits. Reading past the last item is end of input.
\<close>

datatype stdin_item = Line ustring | CtrlC

definition input :: "ustring \<Rightarrow> stdin_item list \<Rightarrow> ustring prog" where
  "input prompt items =
     bind (emit (Prompt prompt)) (\<lambda>_.
       case items of
         [] \<Rightarrow> raise EOFError
       | CtrlC # _ \<Rightarrow> raise KeyboardInterrupt
       | Line q # _ \<Rightarrow> ret q)"

datatype control = Continue | Break

definition msg_exiting :: ustring where
  "msg_exiting = [10, 0x1F44B] @ u '' Exiting.''"

definition msg_answer :: "response \<Rightarrow> ustring" where
  "msg_answer a = [10] @ u ''A: '' @ fmt_opt (response a) @ [10]"

text \<open>One pass through the body of \<open>while True\<close>, with its \<open>try\<close>.\<close>

definition loop_body :: "lib \<Rightarrow> query_engine \<Rightarrow> stdin_item list \<Rightarrow> control prog" where
  "loop_body L qa items =
     catch
       (bind (input (u ''Q: '') items) (\<lambda>q.
          if \<not> truthy (strip q) then ret Continue
          else bind (engine_query L qa q) (\<lambda>a.
               bind (print (msg_answer a)) (\<lambda>_.
               ret Continue))))
       (\<lambda>e. e = EOFError \<or> e = KeyboardInterrupt)
       (\<lambda>_. bind (print msg_exiting) (\<lambda>_. ret Break))"

text \<open>
  The loop. Each pass takes one item of standard input. At end of input \<open>input\<close>
  raises \<open>EOFError\<close>, which the handler turns into \<open>break\<close>, so nothing follows the
  pass on the empty input.
\<close>

fun query_loop :: "lib \<Rightarrow> query_engine \<Rightarrow> stdin_item list \<Rightarrow> unit prog" where
  "query_loop L qa [] = bind (loop_body L qa []) (\<lambda>_. ret ())"
| "query_loop L qa (i # rest) =
     bind (loop_body L qa (i # rest)) (\<lambda>c.
       case c of Continue \<Rightarrow> query_loop L qa rest | Break \<Rightarrow> ret ())"

definition query_knowledge_base :: "lib \<Rightarrow> env \<Rightarrow> env \<Rightarrow> stdin_item list \<Rightarrow> unit prog" where
  "query_knowledge_base L dotenv environ stdin =
     bind (query_setup L dotenv environ) (\<lambda>qa.
     bind (print (check_mark @ u '' Ready to chat with your Data Engineering Knowledge Base!'')) (\<lambda>_.
     bind (print (u ''Type your question (or Ctrl+C to quit).'' @ [10])) (\<lambda>_.
     query_loop L qa stdin)))"

section \<open>ingest\_documents.py\<close>

definition wrench :: ustring where
  "wrench = [0x1F527]"

definition bar_chart :: ustring where
  "bar_chart = [0x1F4CA]"

definition quoted :: "ustring \<Rightarrow> ustring" where
  "quoted s = [39] @ s @ [39]"

text \<open>\<open>index_name not in pc.list_indexes().names()\<close>; \<open>None\<close> is never a name.\<close>

definition not_in_names :: "ustring option \<Rightarrow> ustring list \<Rightarrow> bool" where
  "not_in_names index_name names =
     (case index_name of None \<Rightarrow> True | Some n \<Rightarrow> n \<notin> set names)"

definition setup_pinecone :: "lib \<Rightarrow> env \<Rightarrow> ustring prog" where
  "setup_pinecone L e =
     bind (print (wrench @ u '' Setting up Pinecone...'')) (\<lambda>_.
     bind (Pinecone L (getenv e ''PINECONE_API_KEY'')) (\<lambda>pc.
     let index_name = getenv e ''PINECONE_INDEX_NAME'' in
     bind list_indexes_names (\<lambda>names.
     bind (if not_in_names index_name names then
             bind (print (bar_chart @ u '' Creating new index: '' @ fmt_opt index_name)) (\<lambda>_.
             bind (create_index index_name 1536 (u ''cosine'') (u ''aws'')
                     (getenv_default e ''PINECONE_ENVIRONMENT'' (u ''us-east-1''))) (\<lambda>_.
             print (check_mark @ u '' Index '' @ quoted (fmt_opt index_name)
                      @ u '' created successfully!'')))
           else
             print (check_mark @ u '' Index '' @ quoted (fmt_opt index_name)
                      @ u '' already exists'')) (\<lambda>_.
     Index index_name))))"

definition configure_llama_index :: "lib \<Rightarrow> env \<Rightarrow> unit prog" where
  "configure_llama_index L e =
     bind (print (wrench @ u '' Configuring LlamaIndex...'')) (\<lambda>_.
     bind (OpenAIEmbedding L
             (getenv_default e ''EMBEDDING_MODEL'' (u ''text-embedding-3-small''))
             (getenv e ''OPENAI_API_KEY'')) (\<lambda>em.
     bind (set_embed_model em) (\<lambda>_.
     bind (OpenAI L (getenv_default e ''CHAT_MODEL'' (u ''gpt-4o-mini''))
             (getenv e ''OPENAI_API_KEY'')) (\<lambda>lm.
     bind (set_llm lm) (\<lambda>_.
     bind (lift (int_getenv L e ''CHUNK_SIZE'' 1000)) (\<lambda>size.
     bind (set_chunk_size size) (\<lambda>_.
     bind (lift (int_getenv L e ''CHUNK_OVERLAP'' 200)) (\<lambda>overlap.
     bind (set_chunk_overlap overlap) (\<lambda>_.
     print (check_mark @ u '' LlamaIndex configured''))))))))))"

text \<open>The line printed for document number \<open>i\<close>.\<close>

definition doc_info :: "lib \<Rightarrow> nat \<Rightarrow> document \<Rightarrow> ustring" where
  "doc_info L i doc =
     (let filename = path_name L
            (case map_of (metadata doc) (u ''file_name'') of
               None \<Rightarrow> u ''unknown'' | Some f \<Rightarrow> f);
          char_count = length (doc_text doc)
      in u ''   '' @ str_nat i @ u ''. '' @ filename @ u '' ('' @ fmt_thousands char_count
           @ u '' characters)'')"

fun print_doc_infos :: "lib \<Rightarrow> nat \<Rightarrow> document list \<Rightarrow> unit prog" where
  "print_doc_infos L i [] = ret ()"
| "print_doc_infos L i (doc # docs) =
     bind (print (doc_info L i doc)) (\<lambda>_. print_doc_infos L (Suc i) docs)"

definition load_documents :: "lib \<Rightarrow> document list prog" where
  "load_documents L =
     bind (print ([0x1F4DA] @ u '' Loading documents...'')) (\<lambda>_.
     let docs_path = u ''documents'' in
     bind (if \<not> path_exists L docs_path
           then raise (FileNotFoundError (u ''Documents directory not found: '' @ docs_path))
           else ret ()) (\<lambda>_.
     bind (load_data_dir L docs_path [u ''.txt'']) (\<lambda>documents.
     bind (print (check_mark @ u '' Loaded '' @ str_nat (length documents)
                    @ u '' documents'')) (\<lambda>_.
     bind (print_doc_infos L 1 documents) (\<lambda>_.
     ret documents)))))"

definition ingest_documents :: "lib \<Rightarrow> document list \<Rightarrow> ustring \<Rightarrow> ustring prog" where
  "ingest_documents L documents pinecone_index =
     bind (print ([10, 0x1F680] @ u '' Starting document ingestion...'')) (\<lambda>_.
     bind (print (bar_chart @ u '' Creating embeddings and storing in Pinecone...'')) (\<lambda>_.
     bind (from_documents L pinecone_index documents) (\<lambda>index.
     bind (print (check_mark @ u '' Documents successfully ingested!'')) (\<lambda>_.
     ret index))))"

definition rule60 :: ustring where
  "rule60 = replicate 60 61"

definition msg_total :: "nat \<Rightarrow> ustring" where
  "msg_total n = bar_chart @ u '' Total documents ingested: '' @ str_nat n"

text \<open>\<open>try: m except Exception as e: h e; raise\<close>.\<close>

definition reraising :: "'a prog \<Rightarrow> (exn \<Rightarrow> unit prog) \<Rightarrow> 'a prog" where
  "reraising m h = catch m is_Exception (\<lambda>e. bind (h e) (\<lambda>_. raise e))"

definition main :: "lib \<Rightarrow> env \<Rightarrow> unit prog" where
  "main L e =
     bind (print ([10] @ rule60)) (\<lambda>_.
     bind (print ([0x1F525] @ u '' DATA ENGINEERING KNOWLEDGE BASE - DOCUMENT INGESTION ''
                    @ [0x1F525])) (\<lambda>_.
     bind (print (rule60 @ [10])) (\<lambda>_.
     reraising
       (bind (setup_pinecone L e) (\<lambda>pinecone_index.
        bind (configure_llama_index L e) (\<lambda>_.
        bind (load_documents L) (\<lambda>documents.
        bind (ingest_documents L documents pinecone_index) (\<lambda>index.
        bind (print ([10] @ rule60)) (\<lambda>_.
        bind (print (check_mark @ u '' INGESTION COMPLETE!'')) (\<lambda>_.
        bind (print rule60) (\<lambda>_.
        bind (print (msg_total (length documents))) (\<lambda>_.
        bind (print ([0x1F5C4, 0xFE0F] @ u ''  Vector store: Pinecone (''
                       @ fmt_opt (getenv e ''PINECONE_INDEX_NAME'') @ u '')'')) (\<lambda>_.
        bind (print ([0x1F916] @ u '' Embedding model: ''
                       @ fmt_opt (getenv e ''EMBEDDING_MODEL''))) (\<lambda>_.
        bind (print ([10, 0x1F4A1]
                       @ u '' Next step: Run query_knowledge_base.py to ask questions!'')) (\<lambda>_.
        print (rule60 @ [10])))))))))))))
       (\<lambda>ex. print ([10, 0x274C] @ u '' ERROR: '' @ str_exn ex)))))"

text \<open>The script: \<open>load_dotenv()\<close> at import, then \<open>main()\<close>.\<close>

definition ingest_script :: "lib \<Rightarrow> env \<Rightarrow> env \<Rightarrow> unit prog" where
  "ingest_script L dotenv environ = main L (load_dotenv dotenv environ)"

section \<open>Vocabulary for the properties\<close>




fun printed_of :: "event list \<Rightarrow> ustring list" where
  "printed_of [] = []"
| "printed_of (Stdout m # evs) = m # printed_of evs"
| "printed_of (ev # evs) = printed_of evs"

text \<open>What one query of the engine retrieves and answers when no request fails, read off
  the state; \<open>None\<close> when a request fails.\<close>

definition context_for :: "lib \<Rightarrow> query_engine \<Rightarrow> collection list \<Rightarrow> ustring \<Rightarrow> index_record list option" where
  "context_for L qe cs q =
     map_option (\<lambda>c. take (similarity_top_k qe) (by_similarity L q (recs c)))
       (find (\<lambda>c. cname c = engine_index qe) cs)"

definition answer_of :: "lib \<Rightarrow> query_engine \<Rightarrow> collection list \<Rightarrow> ustring \<Rightarrow> response option" where
  "answer_of L qe cs q =
     (case embed_fails L q of
        Some e \<Rightarrow> None
      | None \<Rightarrow>
          (case context_for L qe cs q of
             None \<Rightarrow> None
           | Some ctx \<Rightarrow>
               (case completion L q ctx of
                  Inl e \<Rightarrow> None
                | Inr a \<Rightarrow> Some \<lparr>response = a, source_nodes = ctx\<rparr>)))"

text \<open>The requests one successful query makes.\<close>

definition query_events :: "query_engine \<Rightarrow> ustring \<Rightarrow> response \<Rightarrow> event list" where
  "query_events qe q r =
     [Embed q, Search (engine_index qe) (similarity_top_k qe) q,
      Complete q (map rec_text (source_nodes r))]"



text \<open>The two replies of the upload handler that say there is nothing to ingest.\<close>

definition nothing_to_do :: "ustring \<Rightarrow> bool" where
  "nothing_to_do m \<longleftrightarrow> m = msg_no_file \<or> m = msg_no_valid"

text \<open>
  The requests for the chunks of one document, the texts upserted in a sequence of
  events, and the last four lines of the ingestion script's summary.
\<close>

definition chunk_events :: "ustring \<Rightarrow> ustring list \<Rightarrow> event list" where
  "chunk_events idx cs = concat (map (\<lambda>c. [Embed c, Upsert idx c]) cs)"

fun upserts_of :: "event list \<Rightarrow> ustring list" where
  "upserts_of [] = []"
| "upserts_of (Upsert idx c # evs) = c # upserts_of evs"
| "upserts_of (ev # evs) = upserts_of evs"

definition summary_tail :: "env \<Rightarrow> event list" where
  "summary_tail e =
     [Stdout ([0x1F5C4, 0xFE0F] @ u ''  Vector store: Pinecone (''
                @ fmt_opt (getenv e ''PINECONE_INDEX_NAME'') @ u '')''),
      Stdout ([0x1F916] @ u '' Embedding model: '' @ fmt_opt (getenv e ''EMBEDDING_MODEL'')),
      Stdout ([10, 0x1F4A1] @ u '' Next step: Run query_knowledge_base.py to ask questions!''),
      Stdout (rule60 @ [10])]"

text \<open>
  The collection \<open>setup_pinecone\<close> asks for, the names in the creation requests of a
  sequence of events, the settings after configuration, and the condition that both
  provider constructors accept what the environment gives them.
\<close>

definition new_collection :: "env \<Rightarrow> ustring \<Rightarrow> collection" where
  "new_collection e n =
     \<lparr>cname = n, dimension = 1536, metric = u ''cosine'', cloud = u ''aws'',
      region = getenv_default e ''PINECONE_ENVIRONMENT'' (u ''us-east-1''), recs = []\<rparr>"

fun creations_of :: "event list \<Rightarrow> ustring option list" where
  "creations_of [] = []"
| "creations_of (CreateIndex name dim met cl reg # evs) = name # creations_of evs"
| "creations_of (ev # evs) = creations_of evs"

definition configured :: "env \<Rightarrow> int \<Rightarrow> int \<Rightarrow> settings \<Rightarrow> settings" where
  "configured e a b st =
     st\<lparr>embed_model := Some \<lparr>model = getenv_default e ''EMBEDDING_MODEL'' (u ''text-embedding-3-small''),
                               api_key = getenv e ''OPENAI_API_KEY''\<rparr>,
        llm := Some \<lparr>model = getenv_default e ''CHAT_MODEL'' (u ''gpt-4o-mini''),
                       api_key = getenv e ''OPENAI_API_KEY''\<rparr>,
        chunk_size := a, chunk_overlap := b\<rparr>"

definition providers_accept :: "lib \<Rightarrow> env \<Rightarrow> bool" where
  "providers_accept L e \<longleftrightarrow>
     embedding_refuses L (getenv_default e ''EMBEDDING_MODEL'' (u ''text-embedding-3-small''))
       (getenv e ''OPENAI_API_KEY'') = None \<and>
     llm_refuses L (getenv_default e ''CHAT_MODEL'' (u ''gpt-4o-mini''))
       (getenv e ''OPENAI_API_KEY'') = None"

section \<open>A concrete world\<close>

text \<open>\<open>int\<close> on a plain ASCII decimal literal, for the concrete runs below.\<close>

definition decimal :: "ustring \<Rightarrow> exn + int" where
  "decimal s =
     (if s \<noteq> [] \<and> list_all (\<lambda>c. 48 \<le> c \<and> c \<le> 57) s
      then Inr (foldl (\<lambda>a c. 10 * a + int (c - 48)) 0 s)
      else Inl (ValueError (u ''invalid literal for int() with base 10'')))"

text \<open>A small concrete world: one document, libraries that accept any non-empty key, a
  splitter that cuts after five characters, a store with the default collection.\<close>

definition spark_doc :: document where
  "spark_doc = \<lparr>doc_text = u ''Spark partitions data'', metadata = [(u ''file_name'', u ''spark.txt'')]\<rparr>"

definition no_key :: "ustring option \<Rightarrow> exn option" where
  "no_key k = (if truthy_opt k then None else Some (LibraryError (u ''no API key'')))"

definition demo_lib :: lib where
  "demo_lib =
     \<lparr>int_of = decimal,
      path_exists = (\<lambda>p. p = u ''documents'' \<or> p = u ''spark.txt''),
      path_name = (\<lambda>p. p),
      pinecone_refuses = no_key,
      embedding_refuses = (\<lambda>m. no_key),
      llm_refuses = (\<lambda>m. no_key),
      read_files = (\<lambda>ps. if list_all (\<lambda>p. p = u ''spark.txt'') ps
                          then Inr (map (\<lambda>p. spark_doc) ps)
                          else Inl (LibraryError (u ''file does not exist''))),
      read_dir = (\<lambda>d exts. Inr [spark_doc]),
      split_text = (\<lambda>size overlap d. [take 5 (doc_text d), drop 5 (doc_text d)]),
      embed_fails = (\<lambda>t. None),
      by_similarity = (\<lambda>q rs. rs),
      completion = (\<lambda>q ctx. Inr (Some (u ''Spark'')))\<rparr>"

definition demo_collection :: collection where
  "demo_collection =
     \<lparr>cname = u ''de-knowledge-base'', dimension = 1536, metric = u ''cosine'',
      cloud = u ''aws'', region = u ''us-east-1'', recs = []\<rparr>"

definition demo_sys :: sys where
  "demo_sys =
     \<lparr>collections = [demo_collection],
      settings = \<lparr>embed_model = None, llm = None, chunk_size = 1024, chunk_overlap = 200\<rparr>,
      trace = []\<rparr>"

definition demo_engine :: query_engine where
  "demo_engine = \<lparr>engine_index = u ''de-knowledge-base'', similarity_top_k = 5\<rparr>"

definition demo_app :: app_globals where
  "demo_app =
     \<lparr>PINECONE_INDEX_NAME = u ''de-knowledge-base'',
      storage_context = u ''de-knowledge-base'',
      query_engine = demo_engine\<rparr>"

definition demo_response :: response where
  "demo_response = \<lparr>response = Some (u ''Spark''), source_nodes = []\<rparr>"


text \<open>
  Environments for the concrete runs: a complete one, one whose chunk overlap exceeds
  the chunk size, one without the provider credential, one without the index name;
  and a store whose collection holds seven records.
\<close>

definition demo_env :: env where
  "demo_env = [u ''OPENAI_API_KEY'' \<mapsto> u ''sk-demo'', u ''PINECONE_API_KEY'' \<mapsto> u ''pc-demo'',
               u ''PINECONE_INDEX_NAME'' \<mapsto> u ''de-knowledge-base'']"

definition overlapping_env :: env where
  "overlapping_env = demo_env(u ''CHUNK_SIZE'' \<mapsto> u ''100'', u ''CHUNK_OVERLAP'' \<mapsto> u ''200'')"

definition env_without_openai_key :: env where
  "env_without_openai_key =
     [u ''PINECONE_API_KEY'' \<mapsto> u ''pc-demo'', u ''PINECONE_INDEX_NAME'' \<mapsto> u ''de-knowledge-base'']"

definition env_without_index_name :: env where
  "env_without_index_name =
     [u ''OPENAI_API_KEY'' \<mapsto> u ''sk-demo'', u ''PINECONE_API_KEY'' \<mapsto> u ''pc-demo'']"

definition full_sys :: sys where
  "full_sys = demo_sys\<lparr>collections :=
     [demo_collection\<lparr>recs := replicate 7 \<lparr>rec_text = u ''Spark'', rec_meta = []\<rparr>\<rparr>]\<rparr>"

section \<open>Properties\<close>

subsection \<open>General facts\<close>

lemma u_eq_iff [simp]: "(u a = u b) = (a = b)"
  by (auto simp: u_def inj_on_def dest!: map_inj_on [where f = of_char and xs = a and ys = b])

lemma bind_ret [simp]: "bind (ret x) f = f x"
  by (simp add: bind_def ret_def)

lemma bind_raise [simp]: "bind (raise e) f = raise e"
  by (simp add: bind_def raise_def)

lemma strip_empty_iff: "strip q = [] \<longleftrightarrow> (\<forall>c\<in>set q. isspace c)"
proof
  assume "strip q = []"
  then have all: "\<forall>c\<in>set (dropWhile isspace q). isspace c"
    by (simp add: strip_def)
  have "dropWhile isspace q = []"
  proof (rule ccontr)
    assume ne: "dropWhile isspace q \<noteq> []"
    then have "\<not> isspace (hd (dropWhile isspace q))" by (rule hd_dropWhile)
    moreover from ne have "hd (dropWhile isspace q) \<in> set (dropWhile isspace q)" by simp
    ultimately show False using all by blast
  qed
  then show "\<forall>c\<in>set q. isspace c" by simp
next
  assume "\<forall>c\<in>set q. isspace c"
  then show "strip q = []" by (auto simp: strip_def dest: set_dropWhileD)
qed



subsection \<open>The query engine and the loop\<close>

lemma engine_query_answer:
  assumes "answer_of L qe (collections s) q = Some r"
  shows "engine_query L qe q s = (Inr r, s\<lparr>trace := trace s @ query_events qe q r\<rparr>)"
  using assms
  by (auto simp: answer_of_def context_for_def engine_query_def embed_def search_def complete_def
      bind_def emit_def refuse_def ret_def lift_def query_events_def
      split: option.splits sum.splits)

lemma loop_body_end: "loop_body L qa [] s = (Inr Break, s\<lparr>trace := trace s @ [Prompt (u ''Q: ''), Stdout msg_exiting]\<rparr>)"
  by (simp add: loop_body_def catch_def input_def bind_def emit_def raise_def print_def ret_def)


lemma loop_body_blank:
  assumes "\<forall>c\<in>set q. isspace c"
  shows "loop_body L qa (Line q # rest) s = (Inr Continue, s\<lparr>trace := trace s @ [Prompt (u ''Q: '')]\<rparr>)"
  using assms
  by (simp add: loop_body_def catch_def input_def bind_def emit_def truthy_def strip_empty_iff ret_def)


lemma query_loop_blank:
  assumes "\<forall>c\<in>set q. isspace c"
  shows "query_loop L qa (Line q # rest) s = query_loop L qa rest (s\<lparr>trace := trace s @ [Prompt (u ''Q: '')]\<rparr>)"
  using loop_body_blank [OF assms, of L qa rest s]
  by (simp add: bind_def)




lemma chat_empty: "chat L G [] history s = (Inr msg_please_type, s)"
  by (simp add: chat_def truthy_def ret_def)

lemma demo_answer: "answer_of demo_lib demo_engine [demo_collection] q = Some demo_response"
  by (simp add: answer_of_def context_for_def demo_lib_def demo_engine_def demo_collection_def
      demo_response_def)

subsection \<open>Blank input (C1)\<close>

text \<open>
  Claim C1, as the code has it. \<open>chat\<close> on the empty message returns the guidance
  message and leaves the state as it was: no event, so no request to any service. The
  query loop, on a line that is empty or all white space, only shows its prompt and
  goes on with the rest of the input: it sends nothing and prints nothing for that
  line.
\<close>

theorem blank_input_skipped:
  "chat L G [] history s = (Inr msg_please_type, s) \<and>
   ((\<forall>c\<in>set q. isspace c) \<longrightarrow>
      query_loop L qa (Line q # rest) s =
      query_loop L qa rest (s\<lparr>trace := trace s @ [Prompt (u ''Q: '')]\<rparr>))"
  using chat_empty query_loop_blank by blast

text \<open>The two parts at a concrete input: the empty message, and a line of three spaces.\<close>

theorem blank_input_skipped_witness:
  "chat demo_lib demo_app [] [] demo_sys = (Inr msg_please_type, demo_sys) \<and>
   query_loop demo_lib demo_engine [Line (u ''   '')] demo_sys =
     (Inr (), demo_sys\<lparr>trace := [Prompt (u ''Q: ''), Prompt (u ''Q: ''), Stdout msg_exiting]\<rparr>)"
  using blank_input_skipped [of demo_lib demo_app "[]" demo_sys "u ''   ''" demo_engine "[]"]
  by (simp add: u_def isspace_def loop_body_end bind_def ret_def demo_sys_def)

text \<open>
  The claim as the spec words it fails twice on a message of three spaces: \<open>chat\<close>
  tests \<open>not message\<close> without \<open>strip\<close>, so it sends the three spaces to the
  engine (embedding, search and completion requests); and the loop prints no guidance
  for the blank line, its only output is the farewell at end of input.
\<close>

theorem blank_input_counterexample:
  "chat demo_lib demo_app (u ''   '') [] demo_sys =
     (Inr (u ''Spark''),
      demo_sys\<lparr>trace := [Embed (u ''   ''), Search (u ''de-knowledge-base'') 5 (u ''   ''),
                          Complete (u ''   '') []]\<rparr>) \<and>
   printed_of (trace (snd (query_loop demo_lib demo_engine [Line (u ''   '')] demo_sys))) =
     [msg_exiting]"
proof -
  have "answer_of demo_lib demo_engine (collections demo_sys) (u ''   '') = Some demo_response"
    by (simp add: demo_answer demo_sys_def)
  from engine_query_answer [OF this]
  have "chat demo_lib demo_app (u ''   '') [] demo_sys =
     (Inr (u ''Spark''),
      demo_sys\<lparr>trace := [Embed (u ''   ''), Search (u ''de-knowledge-base'') 5 (u ''   ''),
                          Complete (u ''   '') []]\<rparr>)"
    by (simp add: chat_def demo_app_def truthy_def u_def bind_def ret_def str_response_def
        demo_response_def query_events_def demo_engine_def demo_sys_def)
  moreover have "\<forall>c\<in>set (u ''   ''). isspace c"
    by (simp add: u_def isspace_def)
  then have "query_loop demo_lib demo_engine [Line (u ''   '')] demo_sys =
     (Inr (), demo_sys\<lparr>trace := [Prompt (u ''Q: ''), Prompt (u ''Q: ''), Stdout msg_exiting]\<rparr>)"
    by (simp add: loop_body_blank loop_body_end bind_def ret_def demo_sys_def)
  ultimately show ?thesis by simp
qed

subsection \<open>The interactive loop (C9)\<close>



subsection \<open>The upload handler (C5, C6)\<close>

lemma bind_Inr: "bind m f s = (Inr y, s') \<longleftrightarrow> (\<exists>x s1. m s = (Inr x, s1) \<and> f x s1 = (Inr y, s'))"
  by (auto simp: bind_def split: prod.splits sum.splits)

lemma upsert_chunks_extends:
  "\<exists>evs. trace (snd (upsert_chunks L idx meta cs s)) = trace s @ evs"
proof (induction cs arbitrary: s)
  case Nil
  show ?case by (simp add: ret_def)
next
  case (Cons c cs)
  show ?case
  proof (cases "embed_fails L c")
    case (Some e)
    then show ?thesis
      by (simp add: embed_def upsert_def bind_def emit_def refuse_def raise_def)
  next
    case None
    show ?thesis
    proof (cases "idx \<in> set (index_names (s\<lparr>trace := trace s @ [Embed c]\<rparr>))")
      case False
      with None show ?thesis
        by (simp add: embed_def upsert_def bind_def emit_def refuse_def ret_def index_names_def)
    next
      case True
      let ?s2 = "s\<lparr>trace := trace s @ [Embed c, Upsert idx c],
                   collections := map (\<lambda>k. if cname k = idx
                       then k\<lparr>recs := recs k @ [\<lparr>rec_text = c, rec_meta = meta\<rparr>]\<rparr> else k)
                     (collections s)\<rparr>"
      from True None have "upsert_chunks L idx meta (c # cs) s = upsert_chunks L idx meta cs ?s2"
        by (simp add: embed_def upsert_def bind_def emit_def refuse_def ret_def index_names_def)
      with Cons.IH [of ?s2] show ?thesis by auto
    qed
  qed
qed

lemma from_documents_extends:
  "\<exists>evs. trace (snd (from_documents L idx ds s)) = trace s @ evs"
proof (induction ds arbitrary: s)
  case Nil
  show ?case by (simp add: ret_def)
next
  case (Cons d ds)
  obtain r s1 where run: "upsert_chunks L idx (metadata d) (chunks_of L s d) s = (r, s1)"
    by (cases "upsert_chunks L idx (metadata d) (chunks_of L s d) s")
  from upsert_chunks_extends [of L idx "metadata d" "chunks_of L s d" s] run
  obtain evs where evs: "trace s1 = trace s @ evs" by auto
  show ?case
  proof (cases r)
    case (Inl e)
    with run evs show ?thesis by (simp add: bind_def)
  next
    case (Inr x)
    with run have "from_documents L idx (d # ds) s = from_documents L idx ds s1"
      by (simp add: bind_def)
    with Cons.IH [of s1] evs show ?thesis by auto
  qed
qed

lemma ingested_not_guidance: "\<not> nothing_to_do (msg_ingested n)"
  by (simp add: nothing_to_do_def msg_ingested_def msg_no_file_def msg_no_valid_def
      check_mark_def warning_sign_def)

lemma ingest_files_loads:
  assumes "truthy_files files" and "file_paths_of L files \<noteq> []"
  shows "ingest_files L G files s =
     bind (lift (read_files L (file_paths_of L files))) (\<lambda>documents.
       bind (from_documents L (storage_context G) documents) (\<lambda>_.
         ret (msg_ingested (length documents))))
       (s\<lparr>trace := trace s @ [ReadFiles (file_paths_of L files)]\<rparr>)"
  using assms
  by (simp add: ingest_files_def Let_def load_data_files_def bind_def emit_def lift_def)

lemma ingest_files_reaches_loader:
  assumes "truthy_files files" and "file_paths_of L files \<noteq> []"
  shows "\<exists>r evs s'. ingest_files L G files s = (r, s') \<and>
           trace s' = trace s @ ReadFiles (file_paths_of L files) # evs \<and>
           \<not> (\<exists>m. r = Inr m \<and> nothing_to_do m) \<and>
           (\<forall>e. read_files L (file_paths_of L files) = Inl e \<longrightarrow>
              r = Inl e \<and> s' = s\<lparr>trace := trace s @ [ReadFiles (file_paths_of L files)]\<rparr>)"
proof (cases "read_files L (file_paths_of L files)")
  case (Inl e)
  with ingest_files_loads [OF assms] show ?thesis
    by (simp add: bind_def lift_def)
next
  case (Inr docs)
  let ?s1 = "s\<lparr>trace := trace s @ [ReadFiles (file_paths_of L files)]\<rparr>"
  obtain r2 s2 where run: "from_documents L (storage_context G) docs ?s1 = (r2, s2)"
    by (cases "from_documents L (storage_context G) docs ?s1")
  from from_documents_extends [of L "storage_context G" docs ?s1] run
  obtain evs where evs: "trace s2 = trace s @ ReadFiles (file_paths_of L files) # evs" by auto
  show ?thesis
  proof (cases r2)
    case (Inl e)
    with ingest_files_loads [OF assms] Inr run evs show ?thesis
      by (simp add: bind_def lift_def)
  next
    case (Inr i)
    with ingest_files_loads [OF assms] \<open>read_files L (file_paths_of L files) = Inr docs\<close> run evs
    show ?thesis
      by (simp add: bind_def lift_def ret_def ingested_not_guidance)
  qed
qed

text \<open>
  Claim C5. For a list of paths the upload handler keeps those that exist. When none
  is left it returns one of its two "nothing to ingest" replies and leaves the state
  untouched (no file read, no request); otherwise the reader is called with exactly
  the existing paths, in order.
\<close>

theorem ingest_files_filters_existing:
  "(filter (path_exists L) ps = [] \<longrightarrow>
      (\<exists>m. ingest_files L G (FileList ps) s = (Inr m, s) \<and> nothing_to_do m)) \<and>
   (filter (path_exists L) ps \<noteq> [] \<longrightarrow>
      (\<exists>r evs s'. ingest_files L G (FileList ps) s = (r, s') \<and>
         trace s' = trace s @ ReadFiles (filter (path_exists L) ps) # evs))"
proof (intro conjI impI)
  assume "filter (path_exists L) ps = []"
  then show "\<exists>m. ingest_files L G (FileList ps) s = (Inr m, s) \<and> nothing_to_do m"
    by (cases ps) (simp_all add: ingest_files_def nothing_to_do_def ret_def)
next
  assume ne: "filter (path_exists L) ps \<noteq> []"
  then have "truthy_files (FileList ps)" and "file_paths_of L (FileList ps) \<noteq> []"
    by auto
  from ingest_files_reaches_loader [OF this, of G s]
  show "\<exists>r evs s'. ingest_files L G (FileList ps) s = (r, s') \<and>
         trace s' = trace s @ ReadFiles (filter (path_exists L) ps) # evs"
    by auto
qed

text \<open>A list with only a missing file, and a list with a missing and an existing one.\<close>

theorem ingest_files_filters_existing_witness:
  "(\<exists>m. ingest_files demo_lib demo_app (FileList [u ''missing.txt'']) demo_sys = (Inr m, demo_sys) \<and>
        nothing_to_do m) \<and>
   (\<exists>r evs s'. ingest_files demo_lib demo_app (FileList [u ''missing.txt'', u ''spark.txt'']) demo_sys = (r, s') \<and>
         trace s' = ReadFiles [u ''spark.txt''] # evs)"
proof -
  have a: "filter (path_exists demo_lib) [u ''missing.txt''] = []"
    by (simp add: demo_lib_def)
  have b: "filter (path_exists demo_lib) [u ''missing.txt'', u ''spark.txt''] = [u ''spark.txt'']"
    by (simp add: demo_lib_def)
  have t: "trace demo_sys = []" by (simp add: demo_sys_def)
  from ingest_files_filters_existing [of demo_lib "[u ''missing.txt'']" demo_app demo_sys]
  have "\<exists>m. ingest_files demo_lib demo_app (FileList [u ''missing.txt'']) demo_sys = (Inr m, demo_sys) \<and>
        nothing_to_do m"
    unfolding a by simp
  moreover
  from ingest_files_filters_existing [of demo_lib "[u ''missing.txt'', u ''spark.txt'']" demo_app demo_sys]
  have "\<exists>r evs s'. ingest_files demo_lib demo_app (FileList [u ''missing.txt'', u ''spark.txt'']) demo_sys = (r, s') \<and>
         trace s' = ReadFiles [u ''spark.txt''] # evs"
    unfolding b t by simp
  ultimately show ?thesis by simp
qed

text \<open>
  Claim C6. A single \<open>Path\<close>, or a single non-empty \<open>str\<close> (the empty one is caught by
  \<open>not files\<close> before), is wrapped into a one-element list with no existence test:
  whether or not the path exists, the reader is called on it, the reply is never a
  "nothing to ingest" one, and when the reader raises the handler raises the same
  exception.
\<close>

theorem single_path_bypasses_filter:
  assumes "files = OnePath p \<or> (files = OneStr p \<and> p \<noteq> [])"
  shows "\<exists>r evs s'. ingest_files L G files s = (r, s') \<and>
           trace s' = trace s @ ReadFiles [p] # evs \<and>
           \<not> (\<exists>m. r = Inr m \<and> nothing_to_do m) \<and>
           (\<forall>e. read_files L [p] = Inl e \<longrightarrow>
              r = Inl e \<and> s' = s\<lparr>trace := trace s @ [ReadFiles [p]]\<rparr>)"
proof -
  from assms have "truthy_files files" and "file_paths_of L files \<noteq> []"
    and "file_paths_of L files = [p]"
    by (auto simp: truthy_def)
  with ingest_files_reaches_loader [of files L G s] show ?thesis by simp
qed

text \<open>A missing file given as one string: the reader's exception comes out of the handler.\<close>

theorem single_path_bypasses_filter_witness:
  "\<not> path_exists demo_lib (u ''missing.txt'') \<and>
   ingest_files demo_lib demo_app (OneStr (u ''missing.txt'')) demo_sys =
     (Inl (LibraryError (u ''file does not exist'')),
      demo_sys\<lparr>trace := [ReadFiles [u ''missing.txt'']]\<rparr>)"
proof -
  have "OneStr (u ''missing.txt'') = OnePath (u ''missing.txt'') \<or>
        (OneStr (u ''missing.txt'') = OneStr (u ''missing.txt'') \<and> u ''missing.txt'' \<noteq> [])"
    by (simp add: u_def)
  from single_path_bypasses_filter [OF this, of demo_lib demo_app demo_sys]
  obtain r evs s' where run: "ingest_files demo_lib demo_app (OneStr (u ''missing.txt'')) demo_sys = (r, s')"
    and tr: "trace s' = trace demo_sys @ ReadFiles [u ''missing.txt''] # evs"
    and err: "\<forall>e. read_files demo_lib [u ''missing.txt''] = Inl e \<longrightarrow>
       r = Inl e \<and> s' = demo_sys\<lparr>trace := trace demo_sys @ [ReadFiles [u ''missing.txt'']]\<rparr>"
    by blast
  have rf: "read_files demo_lib [u ''missing.txt''] = Inl (LibraryError (u ''file does not exist''))"
    by (simp add: demo_lib_def)
  have t: "trace demo_sys = []" by (simp add: demo_sys_def)
  from err rf have "r = Inl (LibraryError (u ''file does not exist''))"
    and "s' = demo_sys\<lparr>trace := [ReadFiles [u ''missing.txt'']]\<rparr>"
    by (simp_all add: t)
  moreover have "\<not> path_exists demo_lib (u ''missing.txt'')"
    by (simp add: demo_lib_def)
  ultimately show ?thesis using run by simp
qed

subsection \<open>The reported count (C7)\<close>

lemma str_nat_nonempty: "str_nat n \<noteq> []"
  by (subst str_nat.simps) simp

lemma str_nat_inj: "str_nat n = str_nat m \<Longrightarrow> n = m"
proof (induction n arbitrary: m rule: str_nat.induct)
  case (1 n)
  show ?case
  proof (cases "n < 10")
    case True
    show ?thesis
    proof (cases "m < 10")
      case True
      with \<open>n < 10\<close> "1.prems" show ?thesis
        by (simp add: str_nat.simps [of n] str_nat.simps [of m])
    next
      case False
      with \<open>n < 10\<close> "1.prems" str_nat_nonempty [of "m div 10"] show ?thesis
        by (simp add: str_nat.simps [of n] str_nat.simps [of m])
    qed
  next
    case False
    show ?thesis
    proof (cases "m < 10")
      case True
      with \<open>\<not> n < 10\<close> "1.prems" str_nat_nonempty [of "n div 10"] show ?thesis
        by (simp add: str_nat.simps [of n] str_nat.simps [of m])
    next
      case mf: False
      with False "1.prems" have "str_nat (n div 10) = str_nat (m div 10)" and "n mod 10 = m mod 10"
        by (simp_all add: str_nat.simps [of n] str_nat.simps [of m])
      with "1.IH" [OF False] have "n div 10 = m div 10" and "n mod 10 = m mod 10" by simp_all
      then show ?thesis by (metis div_mult_mod_eq)
    qed
  qed
qed

lemma msg_ingested_inj: "msg_ingested n = msg_ingested m \<Longrightarrow> n = m"
  by (simp add: msg_ingested_def str_nat_inj)

lemma upserts_of_append: "upserts_of (xs @ ys) = upserts_of xs @ upserts_of ys"
  by (induction xs rule: upserts_of.induct) simp_all

lemma upserts_of_chunk_events: "upserts_of (chunk_events idx cs) = cs"
  by (induction cs) (simp_all add: chunk_events_def)

lemma embed_Inr: "embed L c s = (Inr x, s') \<longleftrightarrow> embed_fails L c = None \<and> s' = s\<lparr>trace := trace s @ [Embed c]\<rparr>"
  by (auto simp: embed_def bind_def emit_def refuse_def ret_def raise_def split: option.splits)

lemma upsert_Inr: "upsert idx r s = (Inr x, s') \<Longrightarrow>
    trace s' = trace s @ [Upsert idx (rec_text r)] \<and> settings s' = settings s"
  by (auto simp: upsert_def bind_def emit_def split: if_splits)

lemma upsert_chunks_Inr:
  "upsert_chunks L idx meta cs s = (Inr x, s') \<Longrightarrow>
     trace s' = trace s @ chunk_events idx cs \<and> settings s' = settings s"
proof (induction cs arbitrary: s)
  case Nil
  then show ?case by (simp add: ret_def chunk_events_def)
next
  case (Cons c cs)
  from Cons.prems obtain s1 s2 y where
    e: "embed L c s = (Inr (), s1)" and
    up: "upsert idx \<lparr>rec_text = c, rec_meta = meta\<rparr> s1 = (Inr y, s2)" and
    rest: "upsert_chunks L idx meta cs s2 = (Inr x, s')"
    by (auto simp: bind_Inr)
  from e have "trace s1 = trace s @ [Embed c]" and "settings s1 = settings s"
    by (simp_all add: embed_Inr)
  moreover from upsert_Inr [OF up] have "trace s2 = trace s1 @ [Upsert idx c]" and "settings s2 = settings s1"
    by simp_all
  moreover note Cons.IH [OF rest]
  ultimately show ?case by (simp add: chunk_events_def)
qed

lemma from_documents_Inr:
  "from_documents L idx ds s = (Inr i, s') \<Longrightarrow>
     trace s' = trace s @ concat (map (\<lambda>d. chunk_events idx (chunks_of L s d)) ds) \<and>
     settings s' = settings s"
proof (induction ds arbitrary: s)
  case Nil
  then show ?case by (simp add: ret_def)
next
  case (Cons d ds)
  from Cons.prems obtain x s1 where
    first: "upsert_chunks L idx (metadata d) (chunks_of L s d) s = (Inr x, s1)" and
    rest: "from_documents L idx ds s1 = (Inr i, s')"
    by (auto simp: bind_Inr)
  from upsert_chunks_Inr [OF first] have t1: "trace s1 = trace s @ chunk_events idx (chunks_of L s d)"
    and st: "settings s1 = settings s" by simp_all
  from st have "\<And>d. chunks_of L s1 d = chunks_of L s d" by (simp add: chunks_of_def)
  with Cons.IH [OF rest] t1 st show ?case by simp
qed

lemma upserts_of_documents:
  "upserts_of (concat (map (\<lambda>d. chunk_events idx (chunks_of L s d)) ds)) = concat (map (chunks_of L s) ds)"
  by (induction ds) (simp_all add: upserts_of_append upserts_of_chunk_events)

lemma ingest_files_count:
  assumes "ingest_files L G files s = (Inr m, s')" and "\<not> nothing_to_do m"
  shows "\<exists>docs evs. read_files L (file_paths_of L files) = Inr docs \<and>
           m = msg_ingested (length docs) \<and>
           trace s' = trace s @ evs \<and>
           upserts_of evs = concat (map (chunks_of L s) docs)"
proof -
  from assms have tf: "truthy_files files" and ne: "file_paths_of L files \<noteq> []"
    by (auto simp: ingest_files_def Let_def ret_def nothing_to_do_def split: if_splits)
  let ?s1 = "s\<lparr>trace := trace s @ [ReadFiles (file_paths_of L files)]\<rparr>"
  from ingest_files_loads [OF tf ne, of G s] assms(1)
  have "bind (lift (read_files L (file_paths_of L files))) (\<lambda>documents.
       bind (from_documents L (storage_context G) documents) (\<lambda>_.
         ret (msg_ingested (length documents)))) ?s1 = (Inr m, s')"
    by simp
  then obtain docs i s2 where rd: "read_files L (file_paths_of L files) = Inr docs"
    and fd: "from_documents L (storage_context G) docs ?s1 = (Inr i, s2)"
    and m: "m = msg_ingested (length docs)" and s': "s' = s2"
    by (auto simp: bind_Inr lift_def ret_def)
  have "\<And>d. chunks_of L ?s1 d = chunks_of L s d" by (simp add: chunks_of_def)
  with from_documents_Inr [OF fd] s'
  have "trace s' = trace s @ ReadFiles (file_paths_of L files) #
          concat (map (\<lambda>d. chunk_events (storage_context G) (chunks_of L s d)) docs)"
    by simp
  moreover have "upserts_of (ReadFiles (file_paths_of L files) #
          concat (map (\<lambda>d. chunk_events (storage_context G) (chunks_of L s d)) docs)) =
        concat (map (chunks_of L s) docs)"
    by (simp add: upserts_of_documents)
  ultimately show ?thesis using rd m by blast
qed

lemma print_Inr: "print m s = (Inr x, s') \<longleftrightarrow> s' = s\<lparr>trace := trace s @ [Stdout m]\<rparr>"
  by (auto simp: print_def emit_def)

lemma reraising_Inr: "reraising m h s = (Inr y, s') \<longleftrightarrow> m s = (Inr y, s')"
  by (auto simp: reraising_def catch_def bind_def raise_def split: prod.splits sum.splits)

lemma load_documents_Inr:
  "load_documents L s = (Inr docs, s') \<Longrightarrow> read_dir L (u ''documents'') [u ''.txt''] = Inr docs"
  by (auto simp: load_documents_def Let_def bind_Inr load_data_dir_def lift_def emit_def ret_def
      split: if_splits)

subsection \<open>Index bootstrap (C4)\<close>

lemma setup_pinecone_existing:
  assumes "pinecone_refuses L (getenv e ''PINECONE_API_KEY'') = None"
    and "getenv e ''PINECONE_INDEX_NAME'' = Some n"
    and "n \<in> set (index_names s)"
  shows "setup_pinecone L e s =
     (Inr n, s\<lparr>trace := trace s @
        [Stdout (wrench @ u '' Setting up Pinecone...''), ListIndexes,
         Stdout (check_mark @ u '' Index '' @ quoted n @ u '' already exists''),
         DescribeIndex (Some n)]\<rparr>)"
  using assms
  by (simp add: Let_def setup_pinecone_def Pinecone_def list_indexes_names_def Index_def bind_def
      emit_def print_def refuse_def ret_def not_in_names_def index_names_def fmt_opt_def)

lemma setup_pinecone_creating:
  assumes "pinecone_refuses L (getenv e ''PINECONE_API_KEY'') = None"
    and "getenv e ''PINECONE_INDEX_NAME'' = Some n"
    and "n \<notin> set (index_names s)"
  shows "setup_pinecone L e s =
     (Inr n, s\<lparr>collections := collections s @ [new_collection e n],
        trace := trace s @
        [Stdout (wrench @ u '' Setting up Pinecone...''), ListIndexes,
         Stdout (bar_chart @ u '' Creating new index: '' @ n),
         CreateIndex (Some n) 1536 (u ''cosine'') (u ''aws'')
           (getenv_default e ''PINECONE_ENVIRONMENT'' (u ''us-east-1'')),
         Stdout (check_mark @ u '' Index '' @ quoted n @ u '' created successfully!''),
         DescribeIndex (Some n)]\<rparr>)"
  using assms
  by (simp add: Let_def setup_pinecone_def Pinecone_def list_indexes_names_def Index_def create_index_def
      bind_def emit_def print_def refuse_def ret_def not_in_names_def index_names_def fmt_opt_def
      new_collection_def)

lemma setup_pinecone_unnamed:
  assumes "pinecone_refuses L (getenv e ''PINECONE_API_KEY'') = None"
    and "getenv e ''PINECONE_INDEX_NAME'' = None"
  shows "setup_pinecone L e s =
     (Inl (LibraryError (u ''index name missing'')),
      s\<lparr>trace := trace s @
        [Stdout (wrench @ u '' Setting up Pinecone...''), ListIndexes,
         Stdout (bar_chart @ u '' Creating new index: '' @ u ''None''),
         CreateIndex None 1536 (u ''cosine'') (u ''aws'')
           (getenv_default e ''PINECONE_ENVIRONMENT'' (u ''us-east-1''))]\<rparr>)"
  using assms
  by (simp add: Let_def setup_pinecone_def Pinecone_def list_indexes_names_def create_index_def
      bind_def emit_def print_def refuse_def ret_def raise_def not_in_names_def fmt_opt_def)

lemma setup_pinecone_Inr:
  assumes "setup_pinecone L e s = (Inr h, s1)"
  shows "pinecone_refuses L (getenv e ''PINECONE_API_KEY'') = None \<and>
         getenv e ''PINECONE_INDEX_NAME'' = Some h"
proof -
  from assms have acc: "pinecone_refuses L (getenv e ''PINECONE_API_KEY'') = None"
    by (auto simp: Let_def setup_pinecone_def Pinecone_def bind_Inr print_Inr refuse_def ret_def raise_def
        split: option.splits)
  show ?thesis
  proof (cases "getenv e ''PINECONE_INDEX_NAME''")
    case None
    with assms show ?thesis
      by (simp add: Let_def setup_pinecone_def Pinecone_def list_indexes_names_def create_index_def
          bind_def emit_def print_def refuse_def ret_def raise_def not_in_names_def
          split: option.splits)
  next
    case (Some n)
    show ?thesis
    proof (cases "n \<in> set (index_names s)")
      case True
      from setup_pinecone_existing [OF acc Some True] assms acc Some show ?thesis by simp
    next
      case False
      from setup_pinecone_creating [OF acc Some False] assms acc Some show ?thesis by simp
    qed
  qed
qed

text \<open>
  Claim C4. \<open>setup_pinecone\<close> is the code's \<open>ensureIndex\<close>; the name comes from the
  environment and the dimension is the constant 1536. If a call returns normally with
  handle \<open>h\<close>, then \<open>h\<close> is the configured name; the call left the collections as
  they were when one named \<open>h\<close> existed, and otherwise added exactly one, named \<open>h\<close>,
  of dimension 1536 and cosine metric, with exactly one creation request; a second
  call in the resulting state returns normally with the same handle, sends no
  creation request and changes no collection; and names that were distinct stay
  distinct.
\<close>

theorem setup_pinecone_idempotent:
  assumes "setup_pinecone L e s = (Inr h, s1)"
  shows "getenv e ''PINECONE_INDEX_NAME'' = Some h \<and>
         collections s1 =
           (if h \<in> set (index_names s) then collections s
            else collections s @ [new_collection e h]) \<and>
         (\<exists>evs. trace s1 = trace s @ evs \<and>
            creations_of evs = (if h \<in> set (index_names s) then [] else [Some h])) \<and>
         (\<exists>evs. setup_pinecone L e s1 = (Inr h, s1\<lparr>trace := trace s1 @ evs\<rparr>) \<and>
            creations_of evs = []) \<and>
         (distinct (index_names s) \<longrightarrow> distinct (index_names s1))"
proof -
  from setup_pinecone_Inr [OF assms]
  have acc: "pinecone_refuses L (getenv e ''PINECONE_API_KEY'') = None"
    and name: "getenv e ''PINECONE_INDEX_NAME'' = Some h" by simp_all
  have first: "collections s1 =
           (if h \<in> set (index_names s) then collections s
            else collections s @ [new_collection e h]) \<and>
         (\<exists>evs. trace s1 = trace s @ evs \<and>
            creations_of evs = (if h \<in> set (index_names s) then [] else [Some h]))"
  proof (cases "h \<in> set (index_names s)")
    case True
    from setup_pinecone_existing [OF acc name True] assms True show ?thesis by auto
  next
    case False
    from setup_pinecone_creating [OF acc name False] assms False show ?thesis by auto
  qed
  then have there: "h \<in> set (index_names s1)"
    by (auto simp: index_names_def new_collection_def split: if_splits)
  have "creations_of
          [Stdout (wrench @ u '' Setting up Pinecone...''), ListIndexes,
           Stdout (check_mark @ u '' Index '' @ quoted h @ u '' already exists''),
           DescribeIndex (Some h)] = []"
    by simp
  with setup_pinecone_existing [OF acc name there]
  have second: "\<exists>evs. setup_pinecone L e s1 = (Inr h, s1\<lparr>trace := trace s1 @ evs\<rparr>) \<and>
            creations_of evs = []"
    by blast
  from first have "distinct (index_names s) \<longrightarrow> distinct (index_names s1)"
    by (auto simp: index_names_def new_collection_def split: if_splits)
  with name first second show ?thesis by blast
qed

text \<open>Two calls in a row on an empty store.\<close>

theorem setup_pinecone_idempotent_witness:
  "\<exists>s1 s2. setup_pinecone demo_lib demo_env (demo_sys\<lparr>collections := []\<rparr>) =
       (Inr (u ''de-knowledge-base''), s1) \<and>
     collections s1 = [new_collection demo_env (u ''de-knowledge-base'')] \<and>
     setup_pinecone demo_lib demo_env s1 = (Inr (u ''de-knowledge-base''), s2) \<and>
     collections s2 = collections s1"
proof -
  let ?s = "demo_sys\<lparr>collections := []\<rparr>"
  have acc: "pinecone_refuses demo_lib (getenv demo_env ''PINECONE_API_KEY'') = None"
    and name: "getenv demo_env ''PINECONE_INDEX_NAME'' = Some (u ''de-knowledge-base'')"
    by (simp_all add: getenv_def demo_env_def demo_lib_def no_key_def truthy_opt_def truthy_def
        u_def [of "''pc-demo''"])
  have fresh: "u ''de-knowledge-base'' \<notin> set (index_names ?s)"
    by (simp add: index_names_def)
  from setup_pinecone_creating [OF acc name fresh] obtain s1 where
    run: "setup_pinecone demo_lib demo_env ?s = (Inr (u ''de-knowledge-base''), s1)" by blast
  from setup_pinecone_idempotent [OF run] fresh
  have "collections s1 = [new_collection demo_env (u ''de-knowledge-base'')]"
    and "\<exists>evs. setup_pinecone demo_lib demo_env s1 =
            (Inr (u ''de-knowledge-base''), s1\<lparr>trace := trace s1 @ evs\<rparr>)"
    by auto
  with run show ?thesis by auto
qed

subsection \<open>Start-up (C2, C3, C8)\<close>

lemma configure_llama_index_run:
  assumes "providers_accept L e"
    and "int_getenv L e ''CHUNK_SIZE'' 1000 = Inr a"
    and "int_getenv L e ''CHUNK_OVERLAP'' 200 = Inr b"
  shows "configure_llama_index L e s =
     (Inr (), s\<lparr>settings := configured e a b (settings s),
                 trace := trace s @ [Stdout (wrench @ u '' Configuring LlamaIndex...''),
                                     Stdout (check_mark @ u '' LlamaIndex configured'')]\<rparr>)"
  using assms
  by (simp add: configure_llama_index_def OpenAIEmbedding_def OpenAI_def set_embed_model_def
      set_llm_def set_chunk_size_def set_chunk_overlap_def bind_def emit_def print_def refuse_def
      ret_def lift_def configured_def providers_accept_def)

lemma configure_llama_index_refused:
  assumes "embedding_refuses L (getenv_default e ''EMBEDDING_MODEL'' (u ''text-embedding-3-small''))
       (getenv e ''OPENAI_API_KEY'') = Some ex"
  shows "configure_llama_index L e s =
     (Inl ex, s\<lparr>trace := trace s @ [Stdout (wrench @ u '' Configuring LlamaIndex...'')]\<rparr>)"
  using assms
  by (simp add: configure_llama_index_def OpenAIEmbedding_def bind_def emit_def print_def
      refuse_def raise_def)

lemma Index_Inr:
  "Index name s = (Inr h, s') \<longleftrightarrow>
     name = Some h \<and> h \<in> set (index_names s) \<and> s' = s\<lparr>trace := trace s @ [DescribeIndex name]\<rparr>"
  by (auto simp: Index_def bind_def emit_def raise_def index_names_def split: option.splits)

lemma app_module_run:
  assumes "int_getenv L (load_dotenv dotenv environ) ''CHUNK_SIZE'' 1000 = Inr a"
    and "int_getenv L (load_dotenv dotenv environ) ''CHUNK_OVERLAP'' 200 = Inr b"
    and "truthy_opt (getenv (load_dotenv dotenv environ) ''OPENAI_API_KEY'')"
    and "truthy_opt (getenv (load_dotenv dotenv environ) ''PINECONE_API_KEY'')"
    and "providers_accept L (load_dotenv dotenv environ)"
    and "pinecone_refuses L (getenv (load_dotenv dotenv environ) ''PINECONE_API_KEY'') = None"
    and "getenv_default (load_dotenv dotenv environ) ''PINECONE_INDEX_NAME''
           (u ''de-knowledge-base'') = n"
    and "n \<in> set (index_names s)"
  shows "app_module L dotenv environ s =
     (Inr \<lparr>PINECONE_INDEX_NAME = n, storage_context = n,
           query_engine = \<lparr>engine_index = n, similarity_top_k = 5\<rparr>\<rparr>,
      s\<lparr>settings := configured (load_dotenv dotenv environ) a b (settings s),
        trace := trace s @ [DescribeIndex (Some n)]\<rparr>)"
  using assms
  by (simp add: app_module_def Let_def OpenAIEmbedding_def OpenAI_def set_embed_model_def
      set_llm_def set_chunk_size_def set_chunk_overlap_def Pinecone_def Index_def
      bind_def emit_def refuse_def ret_def lift_def configured_def providers_accept_def
      index_names_def)

lemma app_module_Inr:
  assumes "app_module L dotenv environ s = (Inr G, s')"
  shows "\<exists>a b. int_getenv L (load_dotenv dotenv environ) ''CHUNK_SIZE'' 1000 = Inr a \<and>
           int_getenv L (load_dotenv dotenv environ) ''CHUNK_OVERLAP'' 200 = Inr b \<and>
           chunk_size (settings s') = a \<and> chunk_overlap (settings s') = b \<and>
           truthy_opt (getenv (load_dotenv dotenv environ) ''OPENAI_API_KEY'') \<and>
           truthy_opt (getenv (load_dotenv dotenv environ) ''PINECONE_API_KEY'') \<and>
           PINECONE_INDEX_NAME G =
             getenv_default (load_dotenv dotenv environ) ''PINECONE_INDEX_NAME''
               (u ''de-knowledge-base'') \<and>
           storage_context G = PINECONE_INDEX_NAME G \<and>
           engine_index (query_engine G) = PINECONE_INDEX_NAME G \<and>
           similarity_top_k (query_engine G) = 5"
  using assms
  apply (simp only: app_module_def Let_def bind_Inr)
  apply (elim exE conjE)
  apply (auto simp: lift_def ret_def raise_def Index_Inr set_embed_model_def set_llm_def
      set_chunk_size_def set_chunk_overlap_def Pinecone_def OpenAIEmbedding_def OpenAI_def
      refuse_def bind_def split: if_splits option.splits)
  done

text \<open>
  The chat UI's module does test its credentials: when either is absent or empty the
  module raises before it builds any client, and the state is untouched.
\<close>

lemma app_module_missing_credential:
  assumes "\<not> truthy_opt (getenv (load_dotenv dotenv environ) ''OPENAI_API_KEY'') \<or>
           \<not> truthy_opt (getenv (load_dotenv dotenv environ) ''PINECONE_API_KEY'')"
  shows "\<exists>ex. app_module L dotenv environ s = (Inl ex, s)"
proof (cases "int_getenv L (load_dotenv dotenv environ) ''CHUNK_SIZE'' 1000")
  case (Inl ex)
  then show ?thesis by (simp add: app_module_def Let_def bind_def lift_def)
next
  case a: (Inr a)
  show ?thesis
  proof (cases "int_getenv L (load_dotenv dotenv environ) ''CHUNK_OVERLAP'' 200")
    case (Inl ex)
    with a show ?thesis by (simp add: app_module_def Let_def bind_def lift_def)
  next
    case (Inr b)
    with a assms show ?thesis
      by (auto simp: app_module_def Let_def bind_def lift_def raise_def ret_def)
  qed
qed

lemma query_setup_Inr:
  assumes "query_setup L dotenv environ s = (Inr qa, s')"
  shows "engine_index qa =
           getenv_default (load_dotenv dotenv environ) ''PINECONE_INDEX_NAME''
             (u ''de-knowledge-base'') \<and>
         similarity_top_k qa = 5"
  using assms
  apply (simp only: query_setup_def Let_def bind_Inr)
  apply (elim exE conjE)
  apply (auto simp: ret_def Index_Inr)
  done

lemma query_setup_run:
  assumes "pinecone_refuses L (getenv (load_dotenv dotenv environ) ''PINECONE_API_KEY'') = None"
    and "providers_accept L (load_dotenv dotenv environ)"
    and "getenv_default (load_dotenv dotenv environ) ''PINECONE_INDEX_NAME''
           (u ''de-knowledge-base'') = n"
    and "n \<in> set (index_names s)"
  shows "query_setup L dotenv environ s =
     (Inr \<lparr>engine_index = n, similarity_top_k = 5\<rparr>,
      s\<lparr>settings := (settings s)\<lparr>
          embed_model := Some \<lparr>model = getenv_default (load_dotenv dotenv environ)
                                  ''EMBEDDING_MODEL'' (u ''text-embedding-3-small''),
                                api_key = getenv (load_dotenv dotenv environ) ''OPENAI_API_KEY''\<rparr>,
          llm := Some \<lparr>model = getenv_default (load_dotenv dotenv environ)
                                  ''CHAT_MODEL'' (u ''gpt-4o-mini''),
                        api_key = getenv (load_dotenv dotenv environ) ''OPENAI_API_KEY''\<rparr>\<rparr>,
        trace := trace s @ [DescribeIndex (Some n)]\<rparr>)"
  using assms
  by (simp add: query_setup_def Let_def OpenAIEmbedding_def OpenAI_def set_embed_model_def
      set_llm_def Pinecone_def Index_def bind_def emit_def refuse_def ret_def
      providers_accept_def index_names_def)

lemma int_getenv_unset: "getenv e k = None \<Longrightarrow> int_getenv L e k d = Inr d"
  by (simp add: int_getenv_def)

lemma load_dotenv_empty [simp]: "load_dotenv Map.empty environ = environ"
  by (simp add: load_dotenv_def)

lemma demo_names: "index_names demo_sys = [u ''de-knowledge-base'']"
  by (simp add: index_names_def demo_sys_def demo_collection_def)

lemma decimal_100: "decimal (u ''100'') = Inr 100" and decimal_200: "decimal (u ''200'') = Inr 200"
  by (simp_all add: decimal_def u_def)

lemma overlapping_env_facts:
  "int_getenv demo_lib overlapping_env ''CHUNK_SIZE'' 1000 = Inr 100"
  "int_getenv demo_lib overlapping_env ''CHUNK_OVERLAP'' 200 = Inr 200"
  "truthy_opt (getenv overlapping_env ''OPENAI_API_KEY'')"
  "truthy_opt (getenv overlapping_env ''PINECONE_API_KEY'')"
  "providers_accept demo_lib overlapping_env"
  "pinecone_refuses demo_lib (getenv overlapping_env ''PINECONE_API_KEY'') = None"
  "getenv_default overlapping_env ''PINECONE_INDEX_NAME'' (u ''de-knowledge-base'') =
     u ''de-knowledge-base''"
  by (simp_all add: int_getenv_def getenv_def getenv_default_def overlapping_env_def demo_env_def
      demo_lib_def decimal_100 decimal_200 truthy_opt_def truthy_def providers_accept_def
      no_key_def u_def [of "''sk-demo''"] u_def [of "''pc-demo''"])

text \<open>
  Claim C2, as the code has it. Neither start-up compares the two numbers. When both
  credentials are present, the constructors accept them, the index exists and the two
  variables read as integers \<open>a\<close> and \<open>b\<close>, the chat UI's module initialisation succeeds
  with chunk size \<open>a\<close> and chunk overlap \<open>b\<close> in the settings, whatever their order;
  \<open>configure_llama_index\<close> of the ingestion script does the same; and an unset variable
  reads as 1000, respectively 200.
\<close>

theorem chunk_settings_stored_unchecked:
  "(int_getenv L (load_dotenv dotenv environ) ''CHUNK_SIZE'' 1000 = Inr a \<and>
    int_getenv L (load_dotenv dotenv environ) ''CHUNK_OVERLAP'' 200 = Inr b \<and>
    truthy_opt (getenv (load_dotenv dotenv environ) ''OPENAI_API_KEY'') \<and>
    truthy_opt (getenv (load_dotenv dotenv environ) ''PINECONE_API_KEY'') \<and>
    providers_accept L (load_dotenv dotenv environ) \<and>
    pinecone_refuses L (getenv (load_dotenv dotenv environ) ''PINECONE_API_KEY'') = None \<and>
    getenv_default (load_dotenv dotenv environ) ''PINECONE_INDEX_NAME'' (u ''de-knowledge-base'')
      \<in> set (index_names s) \<longrightarrow>
    (\<exists>G s'. app_module L dotenv environ s = (Inr G, s') \<and>
       chunk_size (settings s') = a \<and> chunk_overlap (settings s') = b)) \<and>
   (providers_accept L e \<and>
    int_getenv L e ''CHUNK_SIZE'' 1000 = Inr a \<and>
    int_getenv L e ''CHUNK_OVERLAP'' 200 = Inr b \<longrightarrow>
    (\<exists>s'. configure_llama_index L e s = (Inr (), s') \<and>
       chunk_size (settings s') = a \<and> chunk_overlap (settings s') = b)) \<and>
   (getenv e ''CHUNK_SIZE'' = None \<longrightarrow> int_getenv L e ''CHUNK_SIZE'' 1000 = Inr 1000) \<and>
   (getenv e ''CHUNK_OVERLAP'' = None \<longrightarrow> int_getenv L e ''CHUNK_OVERLAP'' 200 = Inr 200)"
proof (intro conjI impI)
  assume h: "int_getenv L (load_dotenv dotenv environ) ''CHUNK_SIZE'' 1000 = Inr a \<and>
    int_getenv L (load_dotenv dotenv environ) ''CHUNK_OVERLAP'' 200 = Inr b \<and>
    truthy_opt (getenv (load_dotenv dotenv environ) ''OPENAI_API_KEY'') \<and>
    truthy_opt (getenv (load_dotenv dotenv environ) ''PINECONE_API_KEY'') \<and>
    providers_accept L (load_dotenv dotenv environ) \<and>
    pinecone_refuses L (getenv (load_dotenv dotenv environ) ''PINECONE_API_KEY'') = None \<and>
    getenv_default (load_dotenv dotenv environ) ''PINECONE_INDEX_NAME'' (u ''de-knowledge-base'')
      \<in> set (index_names s)"
  then have "app_module L dotenv environ s =
     (Inr \<lparr>PINECONE_INDEX_NAME = getenv_default (load_dotenv dotenv environ)
              ''PINECONE_INDEX_NAME'' (u ''de-knowledge-base''),
           storage_context = getenv_default (load_dotenv dotenv environ)
              ''PINECONE_INDEX_NAME'' (u ''de-knowledge-base''),
           query_engine = \<lparr>engine_index = getenv_default (load_dotenv dotenv environ)
              ''PINECONE_INDEX_NAME'' (u ''de-knowledge-base''), similarity_top_k = 5\<rparr>\<rparr>,
      s\<lparr>settings := configured (load_dotenv dotenv environ) a b (settings s),
        trace := trace s @ [DescribeIndex (Some (getenv_default (load_dotenv dotenv environ)
              ''PINECONE_INDEX_NAME'' (u ''de-knowledge-base'')))]\<rparr>)"
    by (intro app_module_run) simp_all
  then show "\<exists>G s'. app_module L dotenv environ s = (Inr G, s') \<and>
       chunk_size (settings s') = a \<and> chunk_overlap (settings s') = b"
    by (simp add: configured_def)
next
  assume "providers_accept L e \<and>
    int_getenv L e ''CHUNK_SIZE'' 1000 = Inr a \<and>
    int_getenv L e ''CHUNK_OVERLAP'' 200 = Inr b"
  then have "configure_llama_index L e s =
     (Inr (), s\<lparr>settings := configured e a b (settings s),
                 trace := trace s @ [Stdout (wrench @ u '' Configuring LlamaIndex...''),
                                     Stdout (check_mark @ u '' LlamaIndex configured'')]\<rparr>)"
    by (intro configure_llama_index_run) simp_all
  then show "\<exists>s'. configure_llama_index L e s = (Inr (), s') \<and>
       chunk_size (settings s') = a \<and> chunk_overlap (settings s') = b"
    by (simp add: configured_def)
qed (simp_all add: int_getenv_unset)

text \<open>Chunk size 100 with chunk overlap 200, and the defaults.\<close>

theorem chunk_settings_stored_unchecked_witness:
  "(\<exists>G s'. app_module demo_lib Map.empty overlapping_env demo_sys = (Inr G, s') \<and>
       chunk_size (settings s') = 100 \<and> chunk_overlap (settings s') = 200) \<and>
   (\<exists>s'. configure_llama_index demo_lib overlapping_env demo_sys = (Inr (), s') \<and>
       chunk_size (settings s') = 100 \<and> chunk_overlap (settings s') = 200) \<and>
   int_getenv demo_lib demo_env ''CHUNK_SIZE'' 1000 = Inr 1000 \<and>
   int_getenv demo_lib demo_env ''CHUNK_OVERLAP'' 200 = Inr 200"
proof -
  have unset: "getenv demo_env ''CHUNK_SIZE'' = None" "getenv demo_env ''CHUNK_OVERLAP'' = None"
    by (simp_all add: getenv_def demo_env_def)
  note T = chunk_settings_stored_unchecked [of demo_lib Map.empty overlapping_env 100 200 demo_sys]
  from T [of overlapping_env] overlapping_env_facts
  have "(\<exists>G s'. app_module demo_lib Map.empty overlapping_env demo_sys = (Inr G, s') \<and>
       chunk_size (settings s') = 100 \<and> chunk_overlap (settings s') = 200) \<and>
   (\<exists>s'. configure_llama_index demo_lib overlapping_env demo_sys = (Inr (), s') \<and>
       chunk_size (settings s') = 100 \<and> chunk_overlap (settings s') = 200)"
    by (simp add: demo_names)
  moreover from T [of demo_env] unset
  have "int_getenv demo_lib demo_env ''CHUNK_SIZE'' 1000 = Inr 1000 \<and>
   int_getenv demo_lib demo_env ''CHUNK_OVERLAP'' 200 = Inr 200"
    by blast
  ultimately show ?thesis by blast
qed

text \<open>
  The claim as the spec words it fails: with chunk size 100 and chunk overlap 200 both
  start-ups return normally and store the two values.
\<close>

theorem overlap_not_validated_counterexample:
  "fst (app_module demo_lib Map.empty overlapping_env demo_sys) = Inr demo_app \<and>
   chunk_size (settings (snd (app_module demo_lib Map.empty overlapping_env demo_sys))) = 100 \<and>
   chunk_overlap (settings (snd (app_module demo_lib Map.empty overlapping_env demo_sys))) = 200 \<and>
   fst (configure_llama_index demo_lib overlapping_env demo_sys) = Inr () \<and>
   chunk_size (settings (snd (configure_llama_index demo_lib overlapping_env demo_sys))) = 100 \<and>
   chunk_overlap (settings (snd (configure_llama_index demo_lib overlapping_env demo_sys))) = 200"
proof -
  have "u ''de-knowledge-base'' \<in> set (index_names demo_sys)" by (simp add: demo_names)
  with overlapping_env_facts
  have "app_module demo_lib Map.empty overlapping_env demo_sys =
     (Inr \<lparr>PINECONE_INDEX_NAME = u ''de-knowledge-base'', storage_context = u ''de-knowledge-base'',
           query_engine = \<lparr>engine_index = u ''de-knowledge-base'', similarity_top_k = 5\<rparr>\<rparr>,
      demo_sys\<lparr>settings := configured (load_dotenv Map.empty overlapping_env) 100 200 (settings demo_sys),
        trace := trace demo_sys @ [DescribeIndex (Some (u ''de-knowledge-base''))]\<rparr>)"
    by (intro app_module_run) simp_all
  moreover from overlapping_env_facts
  have "configure_llama_index demo_lib overlapping_env demo_sys =
     (Inr (), demo_sys\<lparr>settings := configured overlapping_env 100 200 (settings demo_sys),
                 trace := trace demo_sys @ [Stdout (wrench @ u '' Configuring LlamaIndex...''),
                                     Stdout (check_mark @ u '' LlamaIndex configured'')]\<rparr>)"
    by (intro configure_llama_index_run) simp_all
  ultimately show ?thesis
    by (simp add: configured_def demo_app_def demo_engine_def)
qed

text \<open>
  Claim C3 at a failing input. With the vector-store credential and the index name
  set and the provider credential absent, the ingestion script lists the indexes and
  opens the index before anything looks at the provider credential; the exception
  comes only from the embedding constructor. The chat UI's module, on the same
  environment, raises \<open>RuntimeError\<close> at once and does nothing else.
\<close>

theorem ingest_script_requests_before_credentials:
  "getenv (load_dotenv Map.empty env_without_openai_key) ''OPENAI_API_KEY'' = None \<and>
   fst (ingest_script demo_lib Map.empty env_without_openai_key demo_sys) =
     Inl (LibraryError (u ''no API key'')) \<and>
   filter external (trace (snd (ingest_script demo_lib Map.empty env_without_openai_key demo_sys))) =
     [ListIndexes, DescribeIndex (Some (u ''de-knowledge-base''))] \<and>
   app_module demo_lib Map.empty env_without_openai_key demo_sys =
     (Inl (RuntimeError (u ''OPENAI_API_KEY not set'')), demo_sys)"
proof -
  let ?e = env_without_openai_key
  have key: "getenv ?e ''OPENAI_API_KEY'' = None"
    and acc: "pinecone_refuses demo_lib (getenv ?e ''PINECONE_API_KEY'') = None"
    and name: "getenv ?e ''PINECONE_INDEX_NAME'' = Some (u ''de-knowledge-base'')"
    and ref: "embedding_refuses demo_lib
        (getenv_default ?e ''EMBEDDING_MODEL'' (u ''text-embedding-3-small''))
        (getenv ?e ''OPENAI_API_KEY'') = Some (LibraryError (u ''no API key''))"
    and ints: "int_getenv demo_lib ?e ''CHUNK_SIZE'' 1000 = Inr 1000"
       "int_getenv demo_lib ?e ''CHUNK_OVERLAP'' 200 = Inr 200"
    by (simp_all add: getenv_def getenv_default_def env_without_openai_key_def demo_lib_def
        no_key_def truthy_opt_def truthy_def int_getenv_def u_def [of "''pc-demo''"])
  let ?s0 = "demo_sys\<lparr>trace := trace demo_sys @ [Stdout ([10] @ rule60),
      Stdout ([0x1F525] @ u '' DATA ENGINEERING KNOWLEDGE BASE - DOCUMENT INGESTION '' @ [0x1F525]),
      Stdout (rule60 @ [10])]\<rparr>"
  have there: "u ''de-knowledge-base'' \<in> set (index_names ?s0)"
    by (simp add: index_names_def demo_sys_def demo_collection_def)
  note s1 = setup_pinecone_existing [OF acc name there]
  note s2 = configure_llama_index_refused [OF ref]
  have t: "trace demo_sys = []" by (simp add: demo_sys_def)
  from s1 s2 have "ingest_script demo_lib Map.empty ?e demo_sys =
    (Inl (LibraryError (u ''no API key'')),
     demo_sys\<lparr>trace := [Stdout ([10] @ rule60),
      Stdout ([0x1F525] @ u '' DATA ENGINEERING KNOWLEDGE BASE - DOCUMENT INGESTION '' @ [0x1F525]),
      Stdout (rule60 @ [10]),
      Stdout (wrench @ u '' Setting up Pinecone...''), ListIndexes,
      Stdout (check_mark @ u '' Index '' @ quoted (u ''de-knowledge-base'') @ u '' already exists''),
      DescribeIndex (Some (u ''de-knowledge-base'')),
      Stdout (wrench @ u '' Configuring LlamaIndex...''),
      Stdout ([10, 0x274C] @ u '' ERROR: '' @ u ''no API key'')]\<rparr>)"
    by (simp add: ingest_script_def main_def bind_def print_def emit_def reraising_def catch_def
        raise_def t)
  moreover have "app_module demo_lib Map.empty ?e demo_sys =
     (Inl (RuntimeError (u ''OPENAI_API_KEY not set'')), demo_sys)"
    using key ints
    by (simp add: app_module_def Let_def bind_def lift_def raise_def truthy_opt_def)
  ultimately show ?thesis using key by simp
qed

text \<open>
  Claim C8 at a failing input. With the index name unset, the chat UI and the query
  loop open \<open>de-knowledge-base\<close>, but the ingestion script reads the variable without a
  default: it asks the store to create an index named \<open>None\<close> and fails there.
\<close>

theorem ingest_script_ignores_default_index_name:
  "getenv (load_dotenv Map.empty env_without_index_name) ''PINECONE_INDEX_NAME'' = None \<and>
   fst (app_module demo_lib Map.empty env_without_index_name demo_sys) = Inr demo_app \<and>
   fst (query_setup demo_lib Map.empty env_without_index_name demo_sys) = Inr demo_engine \<and>
   fst (ingest_script demo_lib Map.empty env_without_index_name demo_sys) =
     Inl (LibraryError (u ''index name missing'')) \<and>
   creations_of (trace (snd (ingest_script demo_lib Map.empty env_without_index_name demo_sys))) =
     [None]"
proof -
  let ?e = env_without_index_name
  have facts: "getenv ?e ''PINECONE_INDEX_NAME'' = None"
    "pinecone_refuses demo_lib (getenv ?e ''PINECONE_API_KEY'') = None"
    "int_getenv demo_lib ?e ''CHUNK_SIZE'' 1000 = Inr 1000"
    "int_getenv demo_lib ?e ''CHUNK_OVERLAP'' 200 = Inr 200"
    "truthy_opt (getenv ?e ''OPENAI_API_KEY'')"
    "truthy_opt (getenv ?e ''PINECONE_API_KEY'')"
    "providers_accept demo_lib ?e"
    "getenv_default ?e ''PINECONE_INDEX_NAME'' (u ''de-knowledge-base'') = u ''de-knowledge-base''"
    by (simp_all add: getenv_def getenv_default_def env_without_index_name_def demo_lib_def
        no_key_def truthy_opt_def truthy_def int_getenv_def providers_accept_def
        u_def [of "''pc-demo''"] u_def [of "''sk-demo''"])
  have there: "u ''de-knowledge-base'' \<in> set (index_names demo_sys)" by (simp add: demo_names)
  from facts there have "app_module demo_lib Map.empty ?e demo_sys =
     (Inr \<lparr>PINECONE_INDEX_NAME = u ''de-knowledge-base'', storage_context = u ''de-knowledge-base'',
           query_engine = \<lparr>engine_index = u ''de-knowledge-base'', similarity_top_k = 5\<rparr>\<rparr>,
      demo_sys\<lparr>settings := configured (load_dotenv Map.empty ?e) 1000 200 (settings demo_sys),
        trace := trace demo_sys @ [DescribeIndex (Some (u ''de-knowledge-base''))]\<rparr>)"
    by (intro app_module_run) simp_all
  then have app: "fst (app_module demo_lib Map.empty ?e demo_sys) = Inr demo_app"
    by (simp add: demo_app_def demo_engine_def)
  from facts there have "query_setup demo_lib Map.empty ?e demo_sys =
     (Inr \<lparr>engine_index = u ''de-knowledge-base'', similarity_top_k = 5\<rparr>,
      demo_sys\<lparr>settings := (settings demo_sys)\<lparr>
          embed_model := Some \<lparr>model = getenv_default (load_dotenv Map.empty ?e)
                                  ''EMBEDDING_MODEL'' (u ''text-embedding-3-small''),
                                api_key = getenv (load_dotenv Map.empty ?e) ''OPENAI_API_KEY''\<rparr>,
          llm := Some \<lparr>model = getenv_default (load_dotenv Map.empty ?e)
                                  ''CHAT_MODEL'' (u ''gpt-4o-mini''),
                        api_key = getenv (load_dotenv Map.empty ?e) ''OPENAI_API_KEY''\<rparr>\<rparr>,
        trace := trace demo_sys @ [DescribeIndex (Some (u ''de-knowledge-base''))]\<rparr>)"
    by (intro query_setup_run) simp_all
  then have qs: "fst (query_setup demo_lib Map.empty ?e demo_sys) = Inr demo_engine"
    by (simp add: demo_engine_def)
  note s1 = setup_pinecone_unnamed [OF facts(2) facts(1)]
  have t: "trace demo_sys = []" by (simp add: demo_sys_def)
  from s1 have "ingest_script demo_lib Map.empty ?e demo_sys =
    (Inl (LibraryError (u ''index name missing'')),
     demo_sys\<lparr>trace := [Stdout ([10] @ rule60),
      Stdout ([0x1F525] @ u '' DATA ENGINEERING KNOWLEDGE BASE - DOCUMENT INGESTION '' @ [0x1F525]),
      Stdout (rule60 @ [10]),
      Stdout (wrench @ u '' Setting up Pinecone...''), ListIndexes,
      Stdout (bar_chart @ u '' Creating new index: '' @ u ''None''),
      CreateIndex None 1536 (u ''cosine'') (u ''aws'')
           (getenv_default ?e ''PINECONE_ENVIRONMENT'' (u ''us-east-1'')),
      Stdout ([10, 0x274C] @ u '' ERROR: '' @ u ''index name missing'')]\<rparr>)"
    by (simp add: ingest_script_def main_def bind_def print_def emit_def reraising_def catch_def
        raise_def t)
  with app qs facts(1) show ?thesis by simp
qed

subsection \<open>Counts and retrieval (C7, C10)\<close>

lemma upsert_chunks_ok:
  assumes "idx \<in> set (index_names s)" and "list_all (\<lambda>c. embed_fails L c = None) cs"
  shows "\<exists>s'. upsert_chunks L idx meta cs s = (Inr (), s') \<and>
           index_names s' = index_names s \<and> settings s' = settings s"
  using assms
proof (induction cs arbitrary: s)
  case Nil
  show ?case by (simp add: ret_def)
next
  case (Cons c cs)
  let ?s2 = "s\<lparr>trace := trace s @ [Embed c, Upsert idx c],
               collections := map (\<lambda>k. if cname k = idx
                   then k\<lparr>recs := recs k @ [\<lparr>rec_text = c, rec_meta = meta\<rparr>]\<rparr> else k)
                 (collections s)\<rparr>"
  from Cons.prems have step: "upsert_chunks L idx meta (c # cs) s = upsert_chunks L idx meta cs ?s2"
    by (simp add: embed_def upsert_def bind_def emit_def refuse_def ret_def index_names_def)
  have names: "index_names ?s2 = index_names s"
    by (simp add: index_names_def comp_def)
  from Cons.prems names have "idx \<in> set (index_names ?s2)"
    and "list_all (\<lambda>c. embed_fails L c = None) cs" by simp_all
  from Cons.IH [OF this] step names show ?case by simp
qed

lemma from_documents_ok:
  assumes "idx \<in> set (index_names s)"
    and "list_all (\<lambda>d. list_all (\<lambda>c. embed_fails L c = None) (chunks_of L s d)) ds"
  shows "\<exists>s'. from_documents L idx ds s = (Inr idx, s') \<and>
           index_names s' = index_names s \<and> settings s' = settings s"
  using assms
proof (induction ds arbitrary: s)
  case Nil
  show ?case by (simp add: ret_def)
next
  case (Cons d ds)
  from Cons.prems have "list_all (\<lambda>c. embed_fails L c = None) (chunks_of L s d)" by simp
  from upsert_chunks_ok [OF Cons.prems(1) this, of "metadata d"]
  obtain s1 where first: "upsert_chunks L idx (metadata d) (chunks_of L s d) s = (Inr (), s1)"
    and names: "index_names s1 = index_names s" and st: "settings s1 = settings s" by blast
  from st have same: "\<And>d. chunks_of L s1 d = chunks_of L s d" by (simp add: chunks_of_def)
  from Cons.prems names same have "idx \<in> set (index_names s1)"
    and "list_all (\<lambda>d. list_all (\<lambda>c. embed_fails L c = None) (chunks_of L s1 d)) ds"
    by simp_all
  from Cons.IH [OF this] first names st show ?case by (simp add: bind_def)
qed

lemma print_doc_infos_run:
  "\<exists>evs. print_doc_infos L i ds s = (Inr (), s\<lparr>trace := trace s @ evs\<rparr>)"
proof (induction ds arbitrary: i s)
  case Nil
  have "s = s\<lparr>trace := trace s @ []\<rparr>" by simp
  then show ?case unfolding print_doc_infos.simps ret_def by blast
next
  case (Cons d ds)
  let ?s1 = "s\<lparr>trace := trace s @ [Stdout (doc_info L i d)]\<rparr>"
  from Cons.IH [of "Suc i" ?s1] obtain evs where
    "print_doc_infos L (Suc i) ds ?s1 = (Inr (), ?s1\<lparr>trace := trace ?s1 @ evs\<rparr>)" by blast
  then have "print_doc_infos L i (d # ds) s =
      (Inr (), s\<lparr>trace := trace s @ (Stdout (doc_info L i d) # evs)\<rparr>)"
    by (simp add: bind_def print_def emit_def)
  then show ?case by blast
qed

lemma load_documents_ok:
  assumes "path_exists L (u ''documents'')"
    and "read_dir L (u ''documents'') [u ''.txt''] = Inr docs"
  shows "\<exists>evs. load_documents L s = (Inr docs, s\<lparr>trace := trace s @ evs\<rparr>)"
proof -
  let ?s1 = "s\<lparr>trace := trace s @ [Stdout ([0x1F4DA] @ u '' Loading documents...''),
      ReadDir (u ''documents'') [u ''.txt''],
      Stdout (check_mark @ u '' Loaded '' @ str_nat (length docs) @ u '' documents'')]\<rparr>"
  from print_doc_infos_run [of L 1 docs ?s1] obtain evs where
    infos: "print_doc_infos L 1 docs ?s1 = (Inr (), ?s1\<lparr>trace := trace ?s1 @ evs\<rparr>)" by blast
  from assms infos have "load_documents L s = (Inr docs, ?s1\<lparr>trace := trace ?s1 @ evs\<rparr>)"
    by (simp add: load_documents_def Let_def load_data_dir_def bind_def emit_def print_def
        lift_def ret_def)
  then have "load_documents L s = (Inr docs, s\<lparr>trace := trace s @
      ([Stdout ([0x1F4DA] @ u '' Loading documents...''),
      ReadDir (u ''documents'') [u ''.txt''],
      Stdout (check_mark @ u '' Loaded '' @ str_nat (length docs) @ u '' documents'')] @ evs)\<rparr>)"
    by simp
  then show ?thesis by blast
qed

lemma ingest_documents_ok:
  assumes "idx \<in> set (index_names s)"
    and "list_all (\<lambda>d. list_all (\<lambda>c. embed_fails L c = None) (chunks_of L s d)) ds"
  shows "\<exists>s'. ingest_documents L ds idx s = (Inr idx, s')"
proof -
  let ?s1 = "s\<lparr>trace := trace s @ [Stdout ([10, 0x1F680] @ u '' Starting document ingestion...''),
      Stdout (bar_chart @ u '' Creating embeddings and storing in Pinecone...'')]\<rparr>"
  have "\<And>d. chunks_of L ?s1 d = chunks_of L s d" by (simp add: chunks_of_def)
  with assms have "idx \<in> set (index_names ?s1)"
    and "list_all (\<lambda>d. list_all (\<lambda>c. embed_fails L c = None) (chunks_of L ?s1 d)) ds"
    by (simp_all add: index_names_def)
  from from_documents_ok [OF this] obtain s2 where
    "from_documents L idx ds ?s1 = (Inr idx, s2)" by blast
  then show ?thesis
    by (simp add: ingest_documents_def bind_def print_def emit_def ret_def)
qed

lemma main_ok:
  assumes acc: "pinecone_refuses L (getenv e ''PINECONE_API_KEY'') = None"
    and name: "getenv e ''PINECONE_INDEX_NAME'' = Some n"
    and prov: "providers_accept L e"
    and a: "int_getenv L e ''CHUNK_SIZE'' 1000 = Inr a"
    and b: "int_getenv L e ''CHUNK_OVERLAP'' 200 = Inr b"
    and dir: "path_exists L (u ''documents'')"
    and docs: "read_dir L (u ''documents'') [u ''.txt''] = Inr docs"
    and emb: "list_all (\<lambda>d. list_all (\<lambda>c. embed_fails L c = None) (split_text L a b d)) docs"
  shows "\<exists>s'. main L e s = (Inr (), s')"
proof -
  let ?s0 = "s\<lparr>trace := trace s @ [Stdout ([10] @ rule60),
      Stdout ([0x1F525] @ u '' DATA ENGINEERING KNOWLEDGE BASE - DOCUMENT INGESTION '' @ [0x1F525]),
      Stdout (rule60 @ [10])]\<rparr>"
  obtain s1 where s1: "setup_pinecone L e ?s0 = (Inr n, s1)" and n1: "n \<in> set (index_names s1)"
  proof (cases "n \<in> set (index_names ?s0)")
    case True
    from setup_pinecone_existing [OF acc name True] True that show ?thesis
      by (simp add: index_names_def)
  next
    case False
    from setup_pinecone_creating [OF acc name False] that show ?thesis
      by (simp add: index_names_def new_collection_def)
  qed
  let ?s2 = "s1\<lparr>settings := configured e a b (settings s1),
                 trace := trace s1 @ [Stdout (wrench @ u '' Configuring LlamaIndex...''),
                                      Stdout (check_mark @ u '' LlamaIndex configured'')]\<rparr>"
  note s2 = configure_llama_index_run [OF prov a b, of s1]
  from load_documents_ok [OF dir docs, of ?s2] obtain evs where
    s3: "load_documents L ?s2 = (Inr docs, ?s2\<lparr>trace := trace ?s2 @ evs\<rparr>)" by blast
  let ?s3 = "?s2\<lparr>trace := trace ?s2 @ evs\<rparr>"
  have "\<And>d. chunks_of L ?s3 d = split_text L a b d"
    by (simp add: chunks_of_def configured_def)
  with emb n1 have "n \<in> set (index_names ?s3)"
    and "list_all (\<lambda>d. list_all (\<lambda>c. embed_fails L c = None) (chunks_of L ?s3 d)) docs"
    by (simp_all add: index_names_def)
  from ingest_documents_ok [OF this] obtain s4 where
    s4: "ingest_documents L docs n ?s3 = (Inr n, s4)" by blast
  from s1 s2 s3 s4 show ?thesis
    by (simp add: main_def bind_def print_def emit_def reraising_def catch_def)
qed

lemma ingest_files_ok:
  assumes "truthy_files files" and "file_paths_of L files \<noteq> []"
    and "read_files L (file_paths_of L files) = Inr docs"
    and "storage_context G \<in> set (index_names s)"
    and "list_all (\<lambda>d. list_all (\<lambda>c. embed_fails L c = None) (chunks_of L s d)) docs"
  shows "\<exists>s'. ingest_files L G files s = (Inr (msg_ingested (length docs)), s')"
proof -
  let ?s1 = "s\<lparr>trace := trace s @ [ReadFiles (file_paths_of L files)]\<rparr>"
  have "\<And>d. chunks_of L ?s1 d = chunks_of L s d" by (simp add: chunks_of_def)
  with assms(4,5) have "storage_context G \<in> set (index_names ?s1)"
    and "list_all (\<lambda>d. list_all (\<lambda>c. embed_fails L c = None) (chunks_of L ?s1 d)) docs"
    by (simp_all add: index_names_def)
  from from_documents_ok [OF this] obtain s2 where
    "from_documents L (storage_context G) docs ?s1 = (Inr (storage_context G), s2)" by blast
  with ingest_files_loads [OF assms(1,2), of G s] assms(3) show ?thesis
    by (simp add: bind_def lift_def ret_def)
qed

subsection \<open>What a run of the ingestion script writes\<close>

lemma setup_pinecone_quiet:
  assumes "setup_pinecone L e s = (Inr h, s1)"
  shows "\<exists>evs. trace s1 = trace s @ evs \<and> upserts_of evs = [] \<and> settings s1 = settings s"
proof -
  from setup_pinecone_Inr [OF assms]
  have acc: "pinecone_refuses L (getenv e ''PINECONE_API_KEY'') = None"
    and name: "getenv e ''PINECONE_INDEX_NAME'' = Some h" by simp_all
  show ?thesis
  proof (cases "h \<in> set (index_names s)")
    case True
    have "upserts_of [Stdout (wrench @ u '' Setting up Pinecone...''), ListIndexes,
         Stdout (check_mark @ u '' Index '' @ quoted h @ u '' already exists''),
         DescribeIndex (Some h)] = []" by simp
    with setup_pinecone_existing [OF acc name True] assms show ?thesis by auto
  next
    case False
    have "upserts_of [Stdout (wrench @ u '' Setting up Pinecone...''), ListIndexes,
         Stdout (bar_chart @ u '' Creating new index: '' @ h),
         CreateIndex (Some h) 1536 (u ''cosine'') (u ''aws'')
           (getenv_default e ''PINECONE_ENVIRONMENT'' (u ''us-east-1'')),
         Stdout (check_mark @ u '' Index '' @ quoted h @ u '' created successfully!''),
         DescribeIndex (Some h)] = []" by simp
    with setup_pinecone_creating [OF acc name False] assms show ?thesis by auto
  qed
qed

lemma configure_llama_index_Inr:
  assumes "configure_llama_index L e s = (Inr x, s')"
  shows "\<exists>a b. int_getenv L e ''CHUNK_SIZE'' 1000 = Inr a \<and>
           int_getenv L e ''CHUNK_OVERLAP'' 200 = Inr b \<and>
           settings s' = configured e a b (settings s) \<and>
           trace s' = trace s @ [Stdout (wrench @ u '' Configuring LlamaIndex...''),
                                 Stdout (check_mark @ u '' LlamaIndex configured'')]"
  using assms
  apply (simp only: configure_llama_index_def bind_Inr)
  apply (elim exE conjE)
  apply (auto simp: print_Inr OpenAIEmbedding_def OpenAI_def refuse_def ret_def raise_def lift_def
      bind_def set_embed_model_def set_llm_def set_chunk_size_def set_chunk_overlap_def
      configured_def split: option.splits)
  done

lemma print_doc_infos_quiet:
  "\<exists>evs. print_doc_infos L i ds s = (Inr (), s\<lparr>trace := trace s @ evs\<rparr>) \<and> upserts_of evs = []"
proof (induction ds arbitrary: i s)
  case Nil
  have "s = s\<lparr>trace := trace s @ []\<rparr>" and "upserts_of [] = []" by simp_all
  then show ?case unfolding print_doc_infos.simps ret_def by blast
next
  case (Cons d ds)
  let ?s1 = "s\<lparr>trace := trace s @ [Stdout (doc_info L i d)]\<rparr>"
  from Cons.IH [of "Suc i" ?s1] obtain evs where
    run: "print_doc_infos L (Suc i) ds ?s1 = (Inr (), ?s1\<lparr>trace := trace ?s1 @ evs\<rparr>)"
    and quiet: "upserts_of evs = []" by blast
  from run have "print_doc_infos L i (d # ds) s =
      (Inr (), s\<lparr>trace := trace s @ (Stdout (doc_info L i d) # evs)\<rparr>)"
    by (simp add: bind_def print_def emit_def)
  moreover from quiet have "upserts_of (Stdout (doc_info L i d) # evs) = []" by simp
  ultimately show ?case by blast
qed

lemma load_documents_quiet:
  assumes "load_documents L s = (Inr docs, s')"
  shows "\<exists>evs. trace s' = trace s @ evs \<and> upserts_of evs = [] \<and> settings s' = settings s"
proof -
  from assms have dir: "path_exists L (u ''documents'')"
    by (auto simp: load_documents_def Let_def bind_Inr raise_def split: if_splits)
  note rd = load_documents_Inr [OF assms]
  let ?s1 = "s\<lparr>trace := trace s @ [Stdout ([0x1F4DA] @ u '' Loading documents...''),
      ReadDir (u ''documents'') [u ''.txt''],
      Stdout (check_mark @ u '' Loaded '' @ str_nat (length docs) @ u '' documents'')]\<rparr>"
  from print_doc_infos_quiet [of L 1 docs ?s1] obtain evs where
    infos: "print_doc_infos L 1 docs ?s1 = (Inr (), ?s1\<lparr>trace := trace ?s1 @ evs\<rparr>)"
    and quiet: "upserts_of evs = []" by blast
  from dir rd infos have "load_documents L s = (Inr docs, ?s1\<lparr>trace := trace ?s1 @ evs\<rparr>)"
    by (simp add: load_documents_def Let_def load_data_dir_def bind_def emit_def print_def
        lift_def ret_def)
  with assms have "s' = ?s1\<lparr>trace := trace ?s1 @ evs\<rparr>" by simp
  then have "trace s' = trace s @ ([Stdout ([0x1F4DA] @ u '' Loading documents...''),
      ReadDir (u ''documents'') [u ''.txt''],
      Stdout (check_mark @ u '' Loaded '' @ str_nat (length docs) @ u '' documents'')] @ evs)"
    and "settings s' = settings s" by simp_all
  moreover from quiet have "upserts_of ([Stdout ([0x1F4DA] @ u '' Loading documents...''),
      ReadDir (u ''documents'') [u ''.txt''],
      Stdout (check_mark @ u '' Loaded '' @ str_nat (length docs) @ u '' documents'')] @ evs) = []"
    by simp
  ultimately show ?thesis by blast
qed

lemma ingest_documents_Inr:
  assumes "ingest_documents L ds idx s = (Inr i, s')"
  shows "\<exists>evs. trace s' = trace s @ evs \<and> upserts_of evs = concat (map (chunks_of L s) ds)"
proof -
  let ?s1 = "s\<lparr>trace := trace s @ [Stdout ([10, 0x1F680] @ u '' Starting document ingestion...''),
      Stdout (bar_chart @ u '' Creating embeddings and storing in Pinecone...'')]\<rparr>"
  from assms obtain j s2 where fd: "from_documents L idx ds ?s1 = (Inr j, s2)"
    and s': "s' = s2\<lparr>trace := trace s2 @ [Stdout (check_mark @ u '' Documents successfully ingested!'')]\<rparr>"
    by (auto simp: ingest_documents_def bind_Inr print_Inr ret_def)
  have same: "\<And>d. chunks_of L ?s1 d = chunks_of L s d" by (simp add: chunks_of_def)
  from from_documents_Inr [OF fd] s' same
  have "trace s' = trace s @ ([Stdout ([10, 0x1F680] @ u '' Starting document ingestion...''),
      Stdout (bar_chart @ u '' Creating embeddings and storing in Pinecone...'')] @
      concat (map (\<lambda>d. chunk_events idx (chunks_of L s d)) ds) @
      [Stdout (check_mark @ u '' Documents successfully ingested!'')])"
    by simp
  moreover have "upserts_of ([Stdout ([10, 0x1F680] @ u '' Starting document ingestion...''),
      Stdout (bar_chart @ u '' Creating embeddings and storing in Pinecone...'')] @
      concat (map (\<lambda>d. chunk_events idx (chunks_of L s d)) ds) @
      [Stdout (check_mark @ u '' Documents successfully ingested!'')]) =
      concat (map (chunks_of L s) ds)"
    by (simp add: upserts_of_append upserts_of_documents)
  ultimately show ?thesis by blast
qed

lemma main_steps:
  assumes "main L e s = (Inr (), s')"
  shows "\<exists>s0 h s1 s2 docs s3 i s4.
           setup_pinecone L e s0 = (Inr h, s1) \<and>
           configure_llama_index L e s1 = (Inr (), s2) \<and>
           load_documents L s2 = (Inr docs, s3) \<and>
           ingest_documents L docs h s3 = (Inr i, s4) \<and>
           trace s0 = trace s @ [Stdout ([10] @ rule60),
             Stdout ([0x1F525] @ u '' DATA ENGINEERING KNOWLEDGE BASE - DOCUMENT INGESTION ''
                       @ [0x1F525]),
             Stdout (rule60 @ [10])] \<and>
           settings s0 = settings s \<and>
           trace s' = (trace s4 @ [Stdout ([10] @ rule60),
             Stdout (check_mark @ u '' INGESTION COMPLETE!''), Stdout rule60]) @
             Stdout (msg_total (length docs)) # summary_tail e"
  using assms
  apply (simp only: main_def bind_Inr reraising_Inr)
  apply (elim exE conjE)
  apply (clarsimp simp: print_Inr)
  apply (intro exI conjI)
        apply assumption
       apply assumption
      apply assumption
     apply assumption
    apply (simp_all add: summary_tail_def)
  done

lemma main_ingests:
  assumes "main L e s = (Inr (), s')"
  shows "\<exists>docs a b evs pre. read_dir L (u ''documents'') [u ''.txt''] = Inr docs \<and>
           int_getenv L e ''CHUNK_SIZE'' 1000 = Inr a \<and>
           int_getenv L e ''CHUNK_OVERLAP'' 200 = Inr b \<and>
           trace s' = trace s @ evs \<and>
           upserts_of evs = concat (map (split_text L a b) docs) \<and>
           evs = pre @ Stdout (msg_total (length docs)) # summary_tail e"
proof -
  let ?banner = "[Stdout ([10] @ rule60),
             Stdout ([0x1F525] @ u '' DATA ENGINEERING KNOWLEDGE BASE - DOCUMENT INGESTION ''
                       @ [0x1F525]),
             Stdout (rule60 @ [10])]"
  let ?done = "[Stdout ([10] @ rule60),
             Stdout (check_mark @ u '' INGESTION COMPLETE!''), Stdout rule60]"
  let ?conf = "[Stdout (wrench @ u '' Configuring LlamaIndex...''),
               Stdout (check_mark @ u '' LlamaIndex configured'')]"
  from main_steps [OF assms] obtain s0 h s1 s2 docs s3 i s4 where
    r_setup: "setup_pinecone L e s0 = (Inr h, s1)" and
    r_conf: "configure_llama_index L e s1 = (Inr (), s2)" and
    r_load: "load_documents L s2 = (Inr docs, s3)" and
    r_ingest: "ingest_documents L docs h s3 = (Inr i, s4)" and
    t0: "trace s0 = trace s @ ?banner" and
    t': "trace s' = (trace s4 @ ?done) @ Stdout (msg_total (length docs)) # summary_tail e"
    by blast
  from setup_pinecone_quiet [OF r_setup] obtain evs1 where
    t1: "trace s1 = trace s0 @ evs1" and u1: "upserts_of evs1 = []" by blast
  from configure_llama_index_Inr [OF r_conf] obtain a b where
    a: "int_getenv L e ''CHUNK_SIZE'' 1000 = Inr a" and
    b: "int_getenv L e ''CHUNK_OVERLAP'' 200 = Inr b" and
    st2: "settings s2 = configured e a b (settings s1)" and
    t2: "trace s2 = trace s1 @ ?conf" by blast
  from load_documents_quiet [OF r_load] obtain evs3 where
    t3: "trace s3 = trace s2 @ evs3" and u3: "upserts_of evs3 = []" and
    st3: "settings s3 = settings s2" by blast
  from ingest_documents_Inr [OF r_ingest] obtain evs4 where
    t4: "trace s4 = trace s3 @ evs4" and
    u4: "upserts_of evs4 = concat (map (chunks_of L s3) docs)" by blast
  from st2 st3 have "chunks_of L s3 = split_text L a b"
    by (simp add: fun_eq_iff chunks_of_def configured_def)
  with u4 have u4': "upserts_of evs4 = concat (map (split_text L a b) docs)" by simp
  let ?pre = "?banner @ evs1 @ ?conf @ evs3 @ evs4 @ ?done"
  let ?evs = "?pre @ Stdout (msg_total (length docs)) # summary_tail e"
  from t0 t1 t2 t3 t4 t' have "trace s' = trace s @ ?evs" by simp
  moreover from u1 u3 u4' have "upserts_of ?evs = concat (map (split_text L a b) docs)"
    by (simp add: upserts_of_append summary_tail_def)
  moreover note load_documents_Inr [OF r_load] a b
  ultimately show ?thesis by blast
qed

text \<open>
  Claim C7. When the upload handler reports an ingestion, the number in its message is
  the number of documents the reader returned, while the texts upserted in that call
  are the chunks of those documents under the settings in force. A successful run of
  the ingestion script reads the documents of the directory, upserts exactly the chunks
  of those documents under the chunk size and overlap it configured, and ends with its
  summary, whose count line carries the number of documents read. Each message
  determines the number.
\<close>

theorem reported_count_is_documents:
  "(ingest_files L G files s = (Inr m, s') \<and> \<not> nothing_to_do m \<longrightarrow>
      (\<exists>docs evs. read_files L (file_paths_of L files) = Inr docs \<and>
         m = msg_ingested (length docs) \<and>
         trace s' = trace s @ evs \<and>
         upserts_of evs = concat (map (chunks_of L s) docs))) \<and>
   (main L e s = (Inr (), s') \<longrightarrow>
      (\<exists>docs a b evs pre. read_dir L (u ''documents'') [u ''.txt''] = Inr docs \<and>
         int_getenv L e ''CHUNK_SIZE'' 1000 = Inr a \<and>
         int_getenv L e ''CHUNK_OVERLAP'' 200 = Inr b \<and>
         trace s' = trace s @ evs \<and>
         upserts_of evs = concat (map (split_text L a b) docs) \<and>
         evs = pre @ Stdout (msg_total (length docs)) # summary_tail e)) \<and>
   (msg_ingested n = msg_ingested k \<longrightarrow> n = k) \<and>
   (msg_total n = msg_total k \<longrightarrow> n = k)"
  using ingest_files_count [of L G files s m s'] main_ingests [of L e s s']
    msg_ingested_inj [of n k] str_nat_inj [of n k]
  by (simp add: msg_total_def)

text \<open>One document, cut into two chunks: two records written, count 1 reported.\<close>

theorem reported_count_is_documents_witness:
  "(\<exists>s'. ingest_files demo_lib demo_app (FileList [u ''spark.txt'']) demo_sys =
        (Inr (msg_ingested 1), s') \<and>
      length (upserts_of (trace s')) = 2) \<and>
   (\<exists>s' pre. main demo_lib demo_env demo_sys = (Inr (), s') \<and>
      trace s' = pre @ Stdout (msg_total 1) # summary_tail demo_env \<and>
      length (upserts_of (trace s')) = 2)"
proof -
  have paths: "file_paths_of demo_lib (FileList [u ''spark.txt'']) = [u ''spark.txt'']"
    by (simp add: demo_lib_def)
  have rf: "read_files demo_lib [u ''spark.txt''] = Inr [spark_doc]"
    by (simp add: demo_lib_def)
  have rd: "read_dir demo_lib (u ''documents'') [u ''.txt''] = Inr [spark_doc]"
    by (simp add: demo_lib_def)
  have ch: "length (chunks_of demo_lib demo_sys spark_doc) = 2"
    by (simp add: chunks_of_def demo_lib_def)
  have sp: "\<And>a b. length (split_text demo_lib a b spark_doc) = 2"
    by (simp add: demo_lib_def)
  have t: "trace demo_sys = []" by (simp add: demo_sys_def)
  have emb: "\<And>cs. list_all (\<lambda>c. embed_fails demo_lib c = None) cs"
    by (simp add: demo_lib_def list_all_iff)
  have "truthy_files (FileList [u ''spark.txt''])" by simp
  moreover have "file_paths_of demo_lib (FileList [u ''spark.txt'']) \<noteq> []"
    unfolding paths by simp
  moreover have "read_files demo_lib (file_paths_of demo_lib (FileList [u ''spark.txt''])) =
      Inr [spark_doc]" unfolding paths by (rule rf)
  moreover have "storage_context demo_app \<in> set (index_names demo_sys)"
    by (simp add: demo_names demo_app_def)
  moreover have "list_all (\<lambda>d. list_all (\<lambda>c. embed_fails demo_lib c = None)
      (chunks_of demo_lib demo_sys d)) [spark_doc]"
    by (simp add: emb)
  ultimately obtain s1 where
    run1: "ingest_files demo_lib demo_app (FileList [u ''spark.txt'']) demo_sys =
       (Inr (msg_ingested 1), s1)"
    using ingest_files_ok [of "FileList [u ''spark.txt'']" demo_lib "[spark_doc]" demo_app demo_sys]
    by auto
  have "pinecone_refuses demo_lib (getenv demo_env ''PINECONE_API_KEY'') = None"
    and "getenv demo_env ''PINECONE_INDEX_NAME'' = Some (u ''de-knowledge-base'')"
    and "providers_accept demo_lib demo_env"
    and "int_getenv demo_lib demo_env ''CHUNK_SIZE'' 1000 = Inr 1000"
    and "int_getenv demo_lib demo_env ''CHUNK_OVERLAP'' 200 = Inr 200"
    and "path_exists demo_lib (u ''documents'')"
    by (simp_all add: getenv_def getenv_default_def demo_env_def demo_lib_def no_key_def
        truthy_opt_def truthy_def int_getenv_def providers_accept_def
        u_def [of "''pc-demo''"] u_def [of "''sk-demo''"])
  from main_ok [OF this rd, of demo_sys] emb obtain s2 where
    run2: "main demo_lib demo_env demo_sys = (Inr (), s2)" by auto
  note T1 = reported_count_is_documents [of demo_lib demo_app "FileList [u ''spark.txt'']"
      demo_sys "msg_ingested 1" s1 demo_env 1 1, THEN conjunct1, rule_format]
  note T2 = reported_count_is_documents [of demo_lib demo_app "FileList [u ''spark.txt'']"
      demo_sys "msg_ingested 1" s2 demo_env 1 1, THEN conjunct2, THEN conjunct1, rule_format]
  from T1 run1 ingested_not_guidance [of 1] obtain docs evs where
    read: "read_files demo_lib (file_paths_of demo_lib (FileList [u ''spark.txt''])) = Inr docs"
    and tr: "trace s1 = trace demo_sys @ evs"
    and ups: "upserts_of evs = concat (map (chunks_of demo_lib demo_sys) docs)"
    by blast
  from read [unfolded paths] rf have "docs = [spark_doc]" by simp
  with tr ups ch t have first: "length (upserts_of (trace s1)) = 2" by simp
  from T2 [OF run2] obtain docs2 a b evs2 pre where
    rd2: "read_dir demo_lib (u ''documents'') [u ''.txt''] = Inr docs2"
    and tr2: "trace s2 = trace demo_sys @ evs2"
    and ups2: "upserts_of evs2 = concat (map (split_text demo_lib a b) docs2)"
    and tail: "evs2 = pre @ Stdout (msg_total (length docs2)) # summary_tail demo_env"
    by blast
  from rd2 rd have d2: "docs2 = [spark_doc]" by simp
  with tr2 ups2 sp t have "length (upserts_of (trace s2)) = 2" by simp
  moreover from tr2 tail d2 t
  have "trace s2 = pre @ Stdout (msg_total 1) # summary_tail demo_env" by simp
  ultimately show ?thesis using first run1 run2 by blast
qed

lemma engine_query_Inr:
  assumes "engine_query L qe q s = (Inr r, s')"
  shows "length (source_nodes r) \<le> similarity_top_k qe \<and>
         trace s' = trace s @ query_events qe q r"
  using assms
  by (auto simp: engine_query_def embed_def search_def complete_def bind_def emit_def refuse_def
      ret_def raise_def lift_def query_events_def
      split: option.splits sum.splits prod.splits if_splits)

text \<open>
  Claim C10. The query engines built by the chat UI's module and by the query loop's
  set-up both have \<open>similarity_top_k = 5\<close>; and a query that succeeds retrieves at most
  \<open>similarity_top_k\<close> records, asking the store for that many.
\<close>

theorem retrieval_bounded_by_top_k:
  "(app_module L dotenv environ s = (Inr G, s1) \<longrightarrow> similarity_top_k (query_engine G) = 5) \<and>
   (query_setup L dotenv environ s = (Inr qa, s1) \<longrightarrow> similarity_top_k qa = 5) \<and>
   (engine_query L qe q s = (Inr r, s2) \<longrightarrow>
      length (source_nodes r) \<le> similarity_top_k qe \<and>
      trace s2 = trace s @ [Embed q, Search (engine_index qe) (similarity_top_k qe) q,
                            Complete q (map rec_text (source_nodes r))])"
  using app_module_Inr [of L dotenv environ s G s1] query_setup_Inr [of L dotenv environ s qa s1]
    engine_query_Inr [of L qe q s r s2]
  by (auto simp: query_events_def)

text \<open>Both set-ups on the complete environment, and a query on a store of seven records.\<close>

theorem retrieval_bounded_by_top_k_witness:
  "(\<exists>G s1. app_module demo_lib Map.empty demo_env demo_sys = (Inr G, s1) \<and>
      similarity_top_k (query_engine G) = 5) \<and>
   (\<exists>qa s1. query_setup demo_lib Map.empty demo_env demo_sys = (Inr qa, s1) \<and>
      similarity_top_k qa = 5) \<and>
   length (recs (hd (collections full_sys))) = 7 \<and>
   (\<exists>r s2. engine_query demo_lib demo_engine (u ''Spark?'') full_sys = (Inr r, s2) \<and>
      length (source_nodes r) \<le> 5 \<and>
      trace s2 = [Embed (u ''Spark?''), Search (u ''de-knowledge-base'') 5 (u ''Spark?''),
                  Complete (u ''Spark?'') (map rec_text (source_nodes r))])"
proof -
  have facts: "pinecone_refuses demo_lib (getenv demo_env ''PINECONE_API_KEY'') = None"
    "int_getenv demo_lib demo_env ''CHUNK_SIZE'' 1000 = Inr 1000"
    "int_getenv demo_lib demo_env ''CHUNK_OVERLAP'' 200 = Inr 200"
    "truthy_opt (getenv demo_env ''OPENAI_API_KEY'')"
    "truthy_opt (getenv demo_env ''PINECONE_API_KEY'')"
    "providers_accept demo_lib demo_env"
    "getenv_default demo_env ''PINECONE_INDEX_NAME'' (u ''de-knowledge-base'') = u ''de-knowledge-base''"
    by (simp_all add: getenv_def getenv_default_def demo_env_def demo_lib_def
        no_key_def truthy_opt_def truthy_def int_getenv_def providers_accept_def
        u_def [of "''pc-demo''"] u_def [of "''sk-demo''"])
  have there: "u ''de-knowledge-base'' \<in> set (index_names demo_sys)" by (simp add: demo_names)
  from facts there obtain G s1 where
    app: "app_module demo_lib Map.empty demo_env demo_sys = (Inr G, s1)"
    using app_module_run [of demo_lib Map.empty demo_env 1000 200 "u ''de-knowledge-base''" demo_sys]
    by auto
  from facts there obtain qa s1' where
    qs: "query_setup demo_lib Map.empty demo_env demo_sys = (Inr qa, s1')"
    using query_setup_run [of demo_lib Map.empty demo_env "u ''de-knowledge-base''" demo_sys]
    by auto
  have "answer_of demo_lib demo_engine (collections full_sys) (u ''Spark?'') =
      Some \<lparr>response = Some (u ''Spark''),
            source_nodes = replicate 5 \<lparr>rec_text = u ''Spark'', rec_meta = []\<rparr>\<rparr>"
    by (simp add: answer_of_def context_for_def demo_lib_def demo_engine_def full_sys_def
        demo_collection_def)
  from engine_query_answer [OF this] obtain r s2 where
    eq: "engine_query demo_lib demo_engine (u ''Spark?'') full_sys = (Inr r, s2)" by blast
  have seven: "length (recs (hd (collections full_sys))) = 7"
    by (simp add: full_sys_def)
  have t: "trace full_sys = []" by (simp add: full_sys_def demo_sys_def)
  have k: "similarity_top_k demo_engine = 5" "engine_index demo_engine = u ''de-knowledge-base''"
    by (simp_all add: demo_engine_def)
  note T = retrieval_bounded_by_top_k
  from T [of demo_lib Map.empty demo_env demo_sys G s1] app
  have "similarity_top_k (query_engine G) = 5" by blast
  moreover from T [of demo_lib Map.empty demo_env demo_sys _ s1' qa] qs
  have "similarity_top_k qa = 5" by blast
  moreover from T [of demo_lib _ _ full_sys _ _ _ demo_engine "u ''Spark?''" r s2] eq
  have "length (source_nodes r) \<le> 5 \<and>
      trace s2 = [Embed (u ''Spark?''), Search (u ''de-knowledge-base'') 5 (u ''Spark?''),
                  Complete (u ''Spark?'') (map rec_text (source_nodes r))]"
    by (simp add: t k)
  ultimately show ?thesis using app qs eq seven by blast
qed

end
